theory Spec2Isabelle
  imports Main
begin

section \<open>Python values and outcomes of computations\<close>

text \<open>
  The values that \<open>json.loads\<close> returns, which the crawler handles untyped: \<open>None\<close>,
  booleans, numbers (integers here), strings, lists and dictionaries (an association list
  with one entry for each key, looked up with \<open>map_of\<close>). Text is modelled as strings of
  ASCII characters.
\<close>

datatype json =
    JNull
  | JBool bool
  | JNum int
  | JStr string
  | JArr "json list"
  | JObj "(string \<times> json) list"

text \<open>
  A computation of the source returns a value, raises an exception (all exceptions that
  occur here are subclasses of \<open>Exception\<close>; the string is \<open>str(e)\<close>), or blocks
  for ever in a read that never completes.
\<close>

datatype 'a res = Ret 'a | Raise string | Hang

text \<open>
  What \<open>json.loads\<close> does with a text: it returns the value, raises
  \<open>json.JSONDecodeError\<close>, or raises another exception (\<open>RecursionError\<close> on deeply
  nested text, \<open>ValueError\<close> on a number with too many digits), which a handler for
  \<open>json.JSONDecodeError\<close> does not catch; the string is \<open>str(e)\<close>.
\<close>

datatype parsed = Parsed json | DecodeError | LoadsError string

definition quoted :: "string \<Rightarrow> string" where
  "quoted s = CHR 0x27 # s @ [CHR 0x27]"

fun type_name :: "json \<Rightarrow> string" where
  "type_name JNull = ''NoneType''"
| "type_name (JBool b) = ''bool''"
| "type_name (JNum n) = ''int''"
| "type_name (JStr s) = ''str''"
| "type_name (JArr xs) = ''list''"
| "type_name (JObj kvs) = ''dict''"

definition no_attribute :: "json \<Rightarrow> string \<Rightarrow> 'a res" where
  "no_attribute v a = Raise (quoted (type_name v) @ '' object has no attribute '' @ quoted a)"

text \<open>Truthiness, as \<open>if x:\<close> and \<open>bool(x)\<close> test it.\<close>

fun py_truthy :: "json \<Rightarrow> bool" where
  "py_truthy JNull = False"
| "py_truthy (JBool b) = b"
| "py_truthy (JNum n) = (n \<noteq> 0)"
| "py_truthy (JStr s) = (s \<noteq> [])"
| "py_truthy (JArr xs) = (xs \<noteq> [])"
| "py_truthy (JObj kvs) = (kvs \<noteq> [])"

text \<open>\<open>x.get(k, d)\<close>: only a dictionary has the method.\<close>

fun py_get :: "json \<Rightarrow> string \<Rightarrow> json \<Rightarrow> json res" where
  "py_get (JObj kvs) k d = Ret (case map_of kvs k of Some v \<Rightarrow> v | None \<Rightarrow> d)"
| "py_get v k d = no_attribute v ''get''"

text \<open>\<open>x.keys()\<close>, evaluated for logging only.\<close>

fun py_keys :: "json \<Rightarrow> string list res" where
  "py_keys (JObj kvs) = Ret (map fst kvs)"
| "py_keys v = no_attribute v ''keys''"

text \<open>\<open>len(x)\<close>: strings, lists and dictionaries have a length.\<close>

fun py_len :: "json \<Rightarrow> nat res" where
  "py_len (JStr s) = Ret (length s)"
| "py_len (JArr xs) = Ret (length xs)"
| "py_len (JObj kvs) = Ret (length kvs)"
| "py_len v = Raise (''object of type '' @ quoted (type_name v) @ '' has no len()'')"

text \<open>
  The elements that \<open>for x in v\<close> visits: the items of a list, the characters of a string
  (strings of length one), the keys of a dictionary.
\<close>

fun py_iter :: "json \<Rightarrow> json list res" where
  "py_iter (JArr xs) = Ret xs"
| "py_iter (JStr s) = Ret (map (\<lambda>c. JStr [c]) s)"
| "py_iter (JObj kvs) = Ret (map (\<lambda>kv. JStr (fst kv)) kvs)"
| "py_iter v = Raise (quoted (type_name v) @ '' object is not iterable'')"

text \<open>
  \<open>v[:3]\<close>: lists and strings are sliced; a dictionary and the scalars raise (the text of
  the dictionary's exception depends on the interpreter version and is only logged).
\<close>

fun py_slice3 :: "json \<Rightarrow> json res" where
  "py_slice3 (JArr xs) = Ret (JArr (take 3 xs))"
| "py_slice3 (JStr s) = Ret (JStr (take 3 s))"
| "py_slice3 (JObj kvs) = Raise (''unhashable type: '' @ quoted ''slice'')"
| "py_slice3 v = Raise (quoted (type_name v) @ '' object is not subscriptable'')"

subsection \<open>ASCII case conversion and whitespace\<close>

definition ascii_lowercase :: string where
  "ascii_lowercase = ''abcdefghijklmnopqrstuvwxyz''"

definition ascii_uppercase :: string where
  "ascii_uppercase = ''ABCDEFGHIJKLMNOPQRSTUVWXYZ''"

definition digits :: string where
  "digits = ''0123456789''"

definition upper_char :: "char \<Rightarrow> char" where
  "upper_char c = (case map_of (zip ascii_lowercase ascii_uppercase) c of Some u \<Rightarrow> u | None \<Rightarrow> c)"

definition lower_char :: "char \<Rightarrow> char" where
  "lower_char c = (case map_of (zip ascii_uppercase ascii_lowercase) c of Some l \<Rightarrow> l | None \<Rightarrow> c)"

definition upper :: "string \<Rightarrow> string" where
  "upper s = map upper_char s"

definition lower :: "string \<Rightarrow> string" where
  "lower s = map lower_char s"

text \<open>
  The characters that \<open>str.strip\<close> removes and that \<open>\s\<close> matches in ASCII text:
  tab, line feed, vertical tab, form feed, carriage return, the four separators
  \<open>0x1c\<close> to \<open>0x1f\<close>, and the space.
\<close>

definition whitespace :: string where
  "whitespace = [CHR 0x09, CHR 0x0A, CHR 0x0B, CHR 0x0C, CHR 0x0D,
                 CHR 0x1C, CHR 0x1D, CHR 0x1E, CHR 0x1F, CHR 0x20]"

definition is_space :: "char \<Rightarrow> bool" where
  "is_space c = List.member whitespace c"

definition strip :: "string \<Rightarrow> string" where
  "strip s = rev (dropWhile is_space (rev (dropWhile is_space s)))"

text \<open>\<open>x.lower()\<close> on an untyped value: only a string has the method.\<close>

fun py_lower :: "json \<Rightarrow> string res" where
  "py_lower (JStr s) = Ret (lower s)"
| "py_lower v = no_attribute v ''lower''"

text \<open>\<open>k in s\<close> on strings: \<open>k\<close> occurs in \<open>s\<close> as a contiguous substring.\<close>

fun starts_with :: "string \<Rightarrow> string \<Rightarrow> bool" where
  "starts_with [] s = True"
| "starts_with (k # ks) [] = False"
| "starts_with (k # ks) (c # cs) = (k = c \<and> starts_with ks cs)"

fun py_in :: "string \<Rightarrow> string \<Rightarrow> bool" where
  "py_in k [] = (k = [])"
| "py_in k (c # cs) = (starts_with k (c # cs) \<or> py_in k cs)"

section \<open>The regular expressions of the authentication detector\<close>

text \<open>
  The detector calls \<open>re.findall\<close> with nine fixed patterns. Each consists of literal
  characters, an optional literal, character classes and one capturing group; this section
  models Python's backtracking matcher for that fragment.
\<close>

datatype cls = Upper | Ident | ColonSpace

datatype item = Lit char | Opt char | One cls | AtLeast nat cls

text \<open>
  Class membership; \<open>ic\<close> is the flag \<open>re.IGNORECASE\<close>, under which a letter of either
  case belongs to \<open>[A-Z]\<close>. The classes are \<open>[A-Z]\<close>, \<open>[A-Z0-9_]\<close> and \<open>[:\s]\<close>.
\<close>

fun cls_mem :: "bool \<Rightarrow> cls \<Rightarrow> char \<Rightarrow> bool" where
  "cls_mem ic Upper c =
     (List.member ascii_uppercase c \<or> (ic \<and> List.member ascii_lowercase c))"
| "cls_mem ic Ident c =
     (List.member ascii_uppercase c \<or> List.member digits c \<or> c = CHR ''_''
      \<or> (ic \<and> List.member ascii_lowercase c))"
| "cls_mem ic ColonSpace c = (c = CHR '':'' \<or> is_space c)"

definition lit_eq :: "bool \<Rightarrow> char \<Rightarrow> char \<Rightarrow> bool" where
  "lit_eq ic p c = (if ic then lower_char p = lower_char c else p = c)"

text \<open>
  \<open>ends ic items s\<close> lists what is left of \<open>s\<close> after each way of matching \<open>items\<close> at
  its start, in the order in which the backtracking matcher tries them: an optional
  character is taken first and skipped second, and a greedy repetition gives up its
  characters one at a time, down to its minimum.
\<close>

fun ends :: "bool \<Rightarrow> item list \<Rightarrow> string \<Rightarrow> string list" where
  "ends ic [] s = [s]"
| "ends ic (Lit p # items) s =
     (case s of [] \<Rightarrow> []
      | c # cs \<Rightarrow> if lit_eq ic p c then ends ic items cs else [])"
| "ends ic (Opt p # items) s =
     (case s of [] \<Rightarrow> ends ic items []
      | c # cs \<Rightarrow> if lit_eq ic p c then ends ic items cs @ ends ic items s
                 else ends ic items s)"
| "ends ic (One k # items) s =
     (case s of [] \<Rightarrow> []
      | c # cs \<Rightarrow> if cls_mem ic k c then ends ic items cs else [])"
| "ends ic (AtLeast n k # items) s =
     concat (map (\<lambda>j. ends ic items (drop j s))
                 (rev [n ..< Suc (length (takeWhile (cls_mem ic k) s))]))"

text \<open>
  A pattern is what precedes the group, the group, and what follows it. \<open>match_at\<close>
  matches at the start of \<open>s\<close> and returns the text of the group and the rest of \<open>s\<close>
  after the whole match, for the first way that succeeds.
\<close>

type_synonym pattern = "item list \<times> item list \<times> item list"

definition match_at :: "bool \<Rightarrow> pattern \<Rightarrow> string \<Rightarrow> (string \<times> string) option" where
  "match_at ic p s =
     (case p of (pre, grp, post) \<Rightarrow>
        (case concat (map (\<lambda>s1. concat (map (\<lambda>s2. map (\<lambda>s3. (take (length s1 - length s2) s1, s3))
                                                   (ends ic post s2))
                                         (ends ic grp s1)))
                          (ends ic pre s))
         of [] \<Rightarrow> None | m # _ \<Rightarrow> Some m))"

text \<open>
  \<open>re.findall\<close> with one group: the group texts of the leftmost non-overlapping matches,
  scanning from the left. After a match the scan resumes where the match ended (one
  character further when the match was empty); without a match at a position it moves on
  by one character.
\<close>

function findall :: "bool \<Rightarrow> pattern \<Rightarrow> string \<Rightarrow> string list" where
  "findall ic p s =
     (case match_at ic p s of
        None \<Rightarrow> (case s of [] \<Rightarrow> [] | c # cs \<Rightarrow> findall ic p cs)
      | Some (g, rest) \<Rightarrow>
          (if length rest < length s then g # findall ic p rest
           else (case s of [] \<Rightarrow> [g] | c # cs \<Rightarrow> g # findall ic p cs)))"
  by pat_completeness auto
termination
  by (relation "measure (\<lambda>(ic, p, s). length s)") auto

definition lits :: "string \<Rightarrow> item list" where
  "lits s = map Lit s"

text \<open>The group \<open>([A-Z][A-Z0-9_]{n,})\<close>.\<close>

definition var_group :: "nat \<Rightarrow> item list" where
  "var_group n = [One Upper, AtLeast n Ident]"

text \<open>The list \<open>auth_error_patterns\<close>, in the order of the source.\<close>

definition auth_error_patterns :: "pattern list" where
  "auth_error_patterns =
    [(lits ''missing required environment variable'' @ [AtLeast 1 ColonSpace],
        var_group 3, []),
     (lits ''environment variable '', var_group 3, lits '' is required''),
     (lits ''please set '', var_group 3, []),
     ([], var_group 3, lits '' not found''),
     ([], var_group 3, lits '' is not set''),
     (lits ''missing '', var_group 3, []),
     (lits ''require'' @ [Opt CHR ''s'', Lit CHR '' ''], var_group 3, []),
     (lits ''set the '', var_group 3, lits '' environment variable'')]"

text \<open>The pattern \<open>([A-Z][A-Z0-9_]{4,})\<close> of the scan of the diagnostic text.\<close>

definition env_mention_pattern :: pattern where
  "env_mention_pattern = ([], var_group 4, [])"

section \<open>The result of a connection attempt\<close>

text \<open>
  \<open>connect_to_mcp\<close> returns a dictionary whose keys depend on the path taken. A key that
  a path does not set is \<open>None\<close> here; a reader's \<open>.get(key, default)\<close> supplies the
  default then.
\<close>

record functionality =
  tools_count :: nat
  resources_count :: nat
  prompts_count :: nat
  has_capabilities :: bool
  has_server_info :: bool

record outcome =
  success :: bool
  error :: "string option"
  stderr :: "string option"
  raw_response :: "string option"
  tools :: "json option"
  resources :: "json option"
  prompts :: "json option"
  protocol_version :: "json option"
  server_info :: "json option"
  capabilities :: "json option"
  total_functionality :: "nat option"
  functionality_breakdown :: "functionality option"
  additional_data :: "json option"

text \<open>The dictionary \<open>{"success": False, "error": e}\<close>, to which paths add keys.\<close>

definition failure :: "string \<Rightarrow> outcome" where
  "failure e =
     \<lparr>success = False, error = Some e, stderr = None, raw_response = None, tools = None,
      resources = None, prompts = None, protocol_version = None, server_info = None,
      capabilities = None, total_functionality = None, functionality_breakdown = None,
      additional_data = None\<rparr>"

definition get_str :: "string option \<Rightarrow> string" where
  "get_str v = (case v of None \<Rightarrow> [] | Some s \<Rightarrow> s)"

definition bind_res :: "'a res \<Rightarrow> ('a \<Rightarrow> 'b res) \<Rightarrow> 'b res" where
  "bind_res m f = (case m of Ret x \<Rightarrow> f x | Raise e \<Rightarrow> Raise e | Hang \<Rightarrow> Hang)"

section \<open>MCPAuthDetector\<close>

definition auth_keywords :: "string list" where
  "auth_keywords = [''key'', ''token'', ''secret'', ''auth'', ''api'', ''url'', ''client'']"

definition stderr_keywords :: "string list" where
  "stderr_keywords = [''key'', ''token'', ''secret'', ''auth'', ''api'']"

text \<open>\<open>any(keyword in match.lower() for keyword in kws)\<close>\<close>

definition has_keyword :: "string list \<Rightarrow> string \<Rightarrow> bool" where
  "has_keyword kws m = list_ex (\<lambda>keyword. py_in keyword (lower m)) kws"

text \<open>
  \<open>all_errors = f"{error_message} {stderr_output}".upper()\<close>, where a missing key reads
  as the empty string. The text contains the space, so the test \<open>if all_errors:\<close> of the
  source always succeeds and is left out. \<open>mcp_result.get('success', False)\<close> is the field
  \<open>success\<close>.
\<close>

definition all_errors :: "outcome \<Rightarrow> string" where
  "all_errors mcp_result = upper (get_str (error mcp_result) @ '' '' @ get_str (stderr mcp_result))"

text \<open>
  The loop over \<open>auth_error_patterns\<close>: the variables appended to
  \<open>detected_env_vars\<close>, in order.
\<close>

definition error_matches :: "string \<Rightarrow> string list" where
  "error_matches text =
     concat (map (\<lambda>p. map upper (filter (has_keyword auth_keywords) (findall True p text)))
                 auth_error_patterns)"

text \<open>
  The inspection of \<open>server_info\<close> after a successful connection. Its result is only
  logged, but the method calls can raise.
\<close>

definition inspect_server_info :: "json \<Rightarrow> unit res" where
  "inspect_server_info info =
     (if py_truthy info then
        bind_res (py_get info ''name'' (JStr [])) (\<lambda>name.
        bind_res (py_lower name) (\<lambda>server_name.
        bind_res (py_get info ''version'' (JStr [])) (\<lambda>version.
        bind_res (py_lower version) (\<lambda>server_version. Ret ()))))
      else Ret ())"

text \<open>The scan of the diagnostic text in the last step.\<close>

definition stderr_matches :: "string \<Rightarrow> string list" where
  "stderr_matches text =
     filter (has_keyword stderr_keywords) (findall False env_mention_pattern text)"

text \<open>
  \<open>extract_auth_from_mcp_result\<close>. Python does not fix the order in which \<open>list(set(xs))\<close>
  lists the elements, so the function that stands for it is a parameter, \<open>list_of_set\<close>;
  \<open>set_order\<close> says what every such function satisfies. The package name is only logged.
\<close>

definition set_order :: "(string list \<Rightarrow> string list) \<Rightarrow> bool" where
  "set_order list_of_set = (\<forall>xs. distinct (list_of_set xs) \<and> set (list_of_set xs) = set xs)"

definition extract_auth_from_mcp_result ::
    "(string list \<Rightarrow> string list) \<Rightarrow> outcome \<Rightarrow> (bool \<times> string list) res" where
  "extract_auth_from_mcp_result list_of_set mcp_result =
     (let detected_env_vars =
            (if \<not> success mcp_result then error_matches (all_errors mcp_result) else [])
      in if \<not> success mcp_result \<and> detected_env_vars \<noteq> [] then
           Ret (True, list_of_set detected_env_vars)
         else if success mcp_result then
           bind_res (inspect_server_info
                       (case server_info mcp_result of None \<Rightarrow> JObj [] | Some info \<Rightarrow> info))
                    (\<lambda>_. Ret (False, []))
         else
           (let stderr_text = get_str (stderr mcp_result);
                detected_env_vars =
                  detected_env_vars @ (if stderr_text \<noteq> [] then stderr_matches stderr_text else []);
                unique_env_vars = take 5 (list_of_set detected_env_vars)
            in Ret (unique_env_vars \<noteq> [], unique_env_vars)))"

section \<open>The child process and the session\<close>

text \<open>
  What the spawned process does, as far as the client can observe it:
  \<^item> \<open>popen_error\<close>: the exception of \<open>subprocess.Popen\<close>, if it raises;
  \<^item> \<open>returncode\<close>: the value of \<open>process.poll()\<close> after the three-second sleep,
    \<open>None\<close> while the process runs;
  \<^item> \<open>stdin_write k\<close>: the exception of the write and flush of request number \<open>k\<close>
    (from 0), if it raises;
  \<^item> \<open>stderr_select\<close>: whether \<open>select\<close> finds the diagnostic stream readable within
    its 0.1 seconds, or the exception it raises;
  \<^item> \<open>stderr_read k\<close>: call number \<open>k\<close> of \<open>process.stderr.read()\<close>, which reads to
    the end of the stream: it returns the text, raises, or blocks for ever when the process
    keeps the stream open;
  \<^item> \<open>stdout_readline k\<close>: call number \<open>k\<close> of \<open>process.stdout.readline()\<close>, which has
    no timeout: it returns a line (the empty string at the end of the stream), raises, or
    blocks for ever when the process writes no line and keeps the stream open;
  \<^item> \<open>cleanup_error\<close>: the exception of \<open>poll\<close>, \<open>terminate\<close> or \<open>kill\<close> during
    cleanup, if one raises.
\<close>

record child =
  popen_error :: "string option"
  returncode :: "int option"
  stdin_write :: "nat \<Rightarrow> string option"
  stderr_select :: "string + bool"
  stderr_read :: "nat \<Rightarrow> string res"
  stdout_readline :: "nat \<Rightarrow> string res"
  cleanup_error :: "string option"

record rpc_request =
  jsonrpc :: string
  req_id :: int
  req_method :: string
  params :: json

text \<open>
  The state of one connection attempt: the requests handed to \<open>process.stdin.write\<close> so
  far, the numbers of calls of \<open>readline\<close> and of \<open>stderr.read\<close>, whether cleanup ran,
  and the local variables \<open>tools\<close>, \<open>resources\<close> and \<open>prompts\<close>, which keep their
  values when an exception leaves the block that assigns them.
\<close>

record session =
  sent :: "rpc_request list"
  reads :: nat
  err_reads :: nat
  cleaned :: bool
  tools_local :: json
  resources_local :: json
  prompts_local :: json

definition session0 :: session where
  "session0 = \<lparr>sent = [], reads = 0, err_reads = 0, cleaned = False,
               tools_local = JArr [], resources_local = JArr [], prompts_local = JArr []\<rparr>"

type_synonym 'a io = "session \<Rightarrow> 'a res \<times> session"

definition io_return :: "'a \<Rightarrow> 'a io" where
  "io_return x s = (Ret x, s)"

definition io_lift :: "'a res \<Rightarrow> 'a io" where
  "io_lift r s = (r, s)"

definition io_bind :: "'a io \<Rightarrow> ('a \<Rightarrow> 'b io) \<Rightarrow> 'b io" where
  "io_bind m f s =
     (case m s of
        (Ret x, s') \<Rightarrow> f x s'
      | (Raise e, s') \<Rightarrow> (Raise e, s')
      | (Hang, s') \<Rightarrow> (Hang, s'))"

text \<open>\<open>try: m except Exception as e: h e\<close>; a computation that blocks never reaches the handler.\<close>

definition try_except :: "'a io \<Rightarrow> (string \<Rightarrow> 'a io) \<Rightarrow> 'a io" where
  "try_except m h s =
     (case m s of
        (Ret x, s') \<Rightarrow> (Ret x, s')
      | (Raise e, s') \<Rightarrow> h e s'
      | (Hang, s') \<Rightarrow> (Hang, s'))"

text \<open>\<open>process.stdin.write(json.dumps(request) + '\n'); process.stdin.flush()\<close>\<close>

definition write_request :: "child \<Rightarrow> rpc_request \<Rightarrow> unit io" where
  "write_request process request s =
     ((case stdin_write process (length (sent s)) of None \<Rightarrow> Ret () | Some e \<Rightarrow> Raise e),
      s\<lparr>sent := sent s @ [request]\<rparr>)"

text \<open>\<open>process.stdout.readline()\<close>\<close>

definition readline :: "child \<Rightarrow> string io" where
  "readline process s = (stdout_readline process (reads s), s\<lparr>reads := Suc (reads s)\<rparr>)"

text \<open>\<open>process.stderr.read()\<close>\<close>

definition read_stderr :: "child \<Rightarrow> string io" where
  "read_stderr process s = (stderr_read process (err_reads s), s\<lparr>err_reads := Suc (err_reads s)\<rparr>)"

subsection \<open>The four requests\<close>

definition init_request :: rpc_request where
  "init_request =
     \<lparr>jsonrpc = ''2.0'', req_id = 1, req_method = ''initialize'',
      params = JObj
        [(''protocolVersion'', JStr ''2024-11-05''),
         (''capabilities'', JObj [(''roots'', JObj [(''listChanged'', JBool True)]),
                                  (''sampling'', JObj [])]),
         (''clientInfo'', JObj [(''name'', JStr ''e14z-ai-crawler''),
                                (''version'', JStr ''1.0.0'')])]\<rparr>"

definition tools_request :: rpc_request where
  "tools_request = \<lparr>jsonrpc = ''2.0'', req_id = 2, req_method = ''tools/list'', params = JObj []\<rparr>"

definition resources_request :: rpc_request where
  "resources_request =
     \<lparr>jsonrpc = ''2.0'', req_id = 3, req_method = ''resources/list'', params = JObj []\<rparr>"

definition prompts_request :: rpc_request where
  "prompts_request =
     \<lparr>jsonrpc = ''2.0'', req_id = 4, req_method = ''prompts/list'', params = JObj []\<rparr>"

section \<open>MCPProtocolClient\<close>

subsection \<open>Starting the server\<close>

text \<open>\<open>command.split(' ')\<close>: the pieces between single spaces, empty pieces kept.\<close>

fun split_space :: "string \<Rightarrow> string list" where
  "split_space [] = [[]]"
| "split_space (c # cs) =
     (if c = CHR '' '' then [] # split_space cs
      else (case split_space cs of [] \<Rightarrow> [[c]] | w # ws \<Rightarrow> (c # w) # ws))"

text \<open>The list \<open>[cmd] + args\<close> that is passed to \<open>subprocess.Popen\<close>.\<close>

definition popen_args :: "string \<Rightarrow> string list" where
  "popen_args command =
     (if starts_with ''npx '' command then ''npx'' # tl (split_space command)
      else (case split_space command of [] \<Rightarrow> [] | cmd # args \<Rightarrow> cmd # args))"

text \<open>
  \<open>_start_mcp_server\<close>. The operating system is the parameter \<open>os\<close>, from the argument
  list to the behaviour of the process it starts. Every exception gives \<open>None\<close>, and so
  does a process that has exited when the sleep of three seconds ends.
\<close>

definition start_mcp_server :: "(string list \<Rightarrow> child) \<Rightarrow> string \<Rightarrow> child option" where
  "start_mcp_server os command =
     (let process = os (popen_args command)
      in case popen_error process of
           Some e \<Rightarrow> None
         | None \<Rightarrow> (case returncode process of None \<Rightarrow> Some process | Some code \<Rightarrow> None))"

subsection \<open>The exchange with the server\<close>

text \<open>
  \<open>json.loads\<close> is the parameter \<open>loads\<close> of what follows. Where the source catches
  \<open>json.JSONDecodeError\<close>, the result \<open>DecodeError\<close> takes the handler and the result
  \<open>LoadsError\<close> is raised on to the enclosing \<open>try\<close>.

  The check of the diagnostic stream after the first request. The \<open>try\<close> with a bare
  \<open>except\<close> discards an exception of \<open>select\<close> or of \<open>read\<close>, and \<open>stderr_data\<close>
  stays empty then.
\<close>

definition peek_stderr :: "child \<Rightarrow> string io" where
  "peek_stderr process =
     (case stderr_select process of
        Inl e \<Rightarrow> io_return []
      | Inr stderr_available \<Rightarrow>
          if stderr_available then try_except (read_stderr process) (\<lambda>e. io_return [])
          else io_return [])"

text \<open>
  The initialize request and its response. \<open>Inl\<close> is one of the two early \<open>return\<close>
  statements; \<open>Inr\<close> carries \<open>stderr_data\<close>, \<open>protocol_version\<close>, \<open>server_info\<close> and
  \<open>capabilities\<close>. The logging calls are kept where they can raise.
\<close>

definition initialize ::
    "(string \<Rightarrow> parsed) \<Rightarrow> child \<Rightarrow> (outcome + string \<times> json \<times> json \<times> json) io" where
  "initialize loads process =
     io_bind (write_request process init_request) (\<lambda>_.
     io_bind (peek_stderr process) (\<lambda>stderr_data.
     io_bind (readline process) (\<lambda>response_line.
       if response_line = [] then
         io_return (Inl ((failure ''No response from server'')\<lparr>stderr := Some stderr_data\<rparr>))
       else
         (case loads (strip response_line) of
            DecodeError \<Rightarrow>
              io_return (Inl ((failure ''Invalid JSON response'')
                                \<lparr>stderr := Some stderr_data,
                                 raw_response := Some (take 200 response_line)\<rparr>))
          | LoadsError e \<Rightarrow> io_lift (Raise e)
          | Parsed init_response \<Rightarrow>
              io_bind (io_lift (bind_res (py_get init_response ''result'' (JObj []))
                         (\<lambda>r. py_get r ''protocolVersion'' (JStr ''unknown version'')))) (\<lambda>_.
              io_bind (io_lift (py_get init_response ''result'' (JObj []))) (\<lambda>result.
              io_bind (io_lift (py_get result ''protocolVersion'' JNull)) (\<lambda>protocol_version'.
              io_bind (io_lift (py_get result ''serverInfo'' (JObj []))) (\<lambda>server_info'.
              io_bind (io_lift (py_get result ''capabilities'' (JObj []))) (\<lambda>capabilities'.
              io_bind (io_lift (py_keys capabilities')) (\<lambda>_.
              io_return (Inr (stderr_data, protocol_version', server_info', capabilities'))))))))))))"

text \<open>The loop that logs every tool.\<close>

fun log_tools :: "json list \<Rightarrow> unit res" where
  "log_tools [] = Ret ()"
| "log_tools (tool # rest) =
     bind_res (py_get tool ''name'' (JStr ''unnamed'')) (\<lambda>tool_name.
     bind_res (py_get tool ''description'' (JStr ''no description'')) (\<lambda>tool_desc.
     bind_res (py_get tool ''inputSchema'' (JObj [])) (\<lambda>schema.
     bind_res (py_get schema ''properties'' (JObj [])) (\<lambda>tool_params.
     bind_res (if py_truthy tool_params then bind_res (py_keys tool_params) (\<lambda>_. Ret ())
               else Ret ()) (\<lambda>_.
     log_tools rest)))))"

text \<open>The loops that log the first three resources and prompts.\<close>

fun log_named :: "json list \<Rightarrow> unit res" where
  "log_named [] = Ret ()"
| "log_named (x # rest) =
     bind_res (py_get x ''name'' (JStr ''unnamed'')) (\<lambda>name.
     bind_res (py_get x ''description'' (JStr ''no desc'')) (\<lambda>desc.
     log_named rest))"

definition log_first3 :: "json \<Rightarrow> unit res" where
  "log_first3 v =
     bind_res (py_len v) (\<lambda>n.
     bind_res (py_slice3 v) (\<lambda>first3.
     bind_res (py_iter first3) log_named))"

text \<open>\<open>response.get('result', {}).get(key)\<close>\<close>

definition result_member :: "json \<Rightarrow> string \<Rightarrow> json res" where
  "result_member response key =
     bind_res (py_get response ''result'' (JObj [])) (\<lambda>r. py_get r key JNull)"

text \<open>
  The tools request, up to the end of the block that reads its response. The three local
  variables are set to the empty list after the line is read.
\<close>

definition request_tools :: "(string \<Rightarrow> parsed) \<Rightarrow> child \<Rightarrow> unit io" where
  "request_tools loads process =
     io_bind (write_request process tools_request) (\<lambda>_.
     io_bind (readline process) (\<lambda>tools_line.
     io_bind (\<lambda>s. (Ret (), s\<lparr>tools_local := JArr [], resources_local := JArr [],
                                prompts_local := JArr []\<rparr>)) (\<lambda>_.
       if tools_line \<noteq> [] then
         (case loads (strip tools_line) of
            DecodeError \<Rightarrow> io_return ()
          | LoadsError e \<Rightarrow> io_lift (Raise e)
          | Parsed tools_response \<Rightarrow>
              io_bind (io_lift (result_member tools_response ''tools'')) (\<lambda>found.
                if py_truthy found then
                  io_bind (\<lambda>s. (Ret (), s\<lparr>tools_local := found\<rparr>)) (\<lambda>_.
                  io_lift (bind_res (py_len found) (\<lambda>n.
                           bind_res (py_iter found) log_tools)))
                else io_return ()))
       else io_return ())))"

definition request_resources :: "(string \<Rightarrow> parsed) \<Rightarrow> child \<Rightarrow> unit io" where
  "request_resources loads process =
     io_bind (write_request process resources_request) (\<lambda>_.
     io_bind (readline process) (\<lambda>resources_line.
       if resources_line \<noteq> [] then
         (case loads (strip resources_line) of
            DecodeError \<Rightarrow> io_return ()
          | LoadsError e \<Rightarrow> io_lift (Raise e)
          | Parsed resources_response \<Rightarrow>
              io_bind (io_lift (result_member resources_response ''resources'')) (\<lambda>found.
                if py_truthy found then
                  io_bind (\<lambda>s. (Ret (), s\<lparr>resources_local := found\<rparr>)) (\<lambda>_.
                  io_lift (log_first3 found))
                else io_return ()))
       else io_return ()))"

definition request_prompts :: "(string \<Rightarrow> parsed) \<Rightarrow> child \<Rightarrow> unit io" where
  "request_prompts loads process =
     io_bind (write_request process prompts_request) (\<lambda>_.
     io_bind (readline process) (\<lambda>prompts_line.
       if prompts_line \<noteq> [] then
         (case loads (strip prompts_line) of
            DecodeError \<Rightarrow> io_return ()
          | LoadsError e \<Rightarrow> io_lift (Raise e)
          | Parsed prompts_response \<Rightarrow>
              io_bind (io_lift (result_member prompts_response ''prompts'')) (\<lambda>found.
                if py_truthy found then
                  io_bind (\<lambda>s. (Ret (), s\<lparr>prompts_local := found\<rparr>)) (\<lambda>_.
                  io_lift (log_first3 found))
                else io_return ()))
       else io_return ()))"

text \<open>The \<open>try\<close> block around the resources and prompts requests; its handler only logs.\<close>

definition request_additional :: "(string \<Rightarrow> parsed) \<Rightarrow> child \<Rightarrow> unit io" where
  "request_additional loads process =
     try_except (io_bind (request_resources loads process) (\<lambda>_. request_prompts loads process))
                (\<lambda>e. io_return ())"

text \<open>The dictionary of the successful path, built from the local variables.\<close>

definition summarize :: "string \<Rightarrow> json \<Rightarrow> json \<Rightarrow> json \<Rightarrow> outcome io" where
  "summarize stderr_data protocol_version' server_info' capabilities' s =
     (bind_res (py_len (tools_local s)) (\<lambda>nt.
      bind_res (py_len (resources_local s)) (\<lambda>nr.
      bind_res (py_len (prompts_local s)) (\<lambda>np.
        Ret \<lparr>success = True, error = None, stderr = Some stderr_data, raw_response = None,
             tools = Some (tools_local s), resources = Some (resources_local s),
             prompts = Some (prompts_local s), protocol_version = Some protocol_version',
             server_info = Some server_info', capabilities = Some capabilities',
             total_functionality = Some (nt + nr + np),
             functionality_breakdown =
               Some \<lparr>tools_count = nt, resources_count = nr, prompts_count = np,
                     has_capabilities = py_truthy capabilities',
                     has_server_info = py_truthy server_info'\<rparr>,
             additional_data = Some (JObj [])\<rparr>))), s)"

text \<open>The body of the outer \<open>try\<close> of \<open>_communicate_with_server\<close>.\<close>

definition exchange :: "(string \<Rightarrow> parsed) \<Rightarrow> child \<Rightarrow> outcome io" where
  "exchange loads process =
     io_bind (initialize loads process) (\<lambda>r.
       case r of
         Inl early \<Rightarrow> io_return early
       | Inr (stderr_data, protocol_version', server_info', capabilities') \<Rightarrow>
           io_bind (request_tools loads process) (\<lambda>_.
           io_bind (request_additional loads process) (\<lambda>_.
           summarize stderr_data protocol_version' server_info' capabilities')))"

text \<open>
  \<open>_communicate_with_server\<close>: the handler of the outer \<open>try\<close> reads the diagnostic
  stream to its end (\<open>process.stderr.read() or ""\<close>, an exception of the read discarded)
  and returns a failure with the text of the exception.
\<close>

definition communicate_with_server :: "(string \<Rightarrow> parsed) \<Rightarrow> child \<Rightarrow> outcome io" where
  "communicate_with_server loads process =
     try_except (exchange loads process) (\<lambda>e.
       io_bind (try_except (read_stderr process) (\<lambda>e'. io_return [])) (\<lambda>stderr_data.
       io_return ((failure e)\<lparr>stderr := Some stderr_data\<rparr>)))"

text \<open>\<open>_cleanup_process\<close>: an exception of \<open>poll\<close>, \<open>terminate\<close> or \<open>kill\<close> is logged.\<close>

definition cleanup_process :: "child \<Rightarrow> unit io" where
  "cleanup_process process =
     try_except (\<lambda>s. ((case cleanup_error process of None \<Rightarrow> Ret () | Some e \<Rightarrow> Raise e),
                      s\<lparr>cleaned := True\<rparr>))
                (\<lambda>e. io_return ())"

text \<open>
  \<open>connect_to_mcp\<close>, run from the initial state of a session: the result and the final
  state, whose field \<open>sent\<close> lists the requests written.
\<close>

definition connect_to_mcp ::
    "(string list \<Rightarrow> child) \<Rightarrow> (string \<Rightarrow> parsed) \<Rightarrow> string \<Rightarrow> outcome res \<times> session" where
  "connect_to_mcp os loads install_command =
     try_except
       (case start_mcp_server os install_command of
          None \<Rightarrow> io_return (failure ''Failed to start MCP server'')
        | Some process \<Rightarrow>
            io_bind (communicate_with_server loads process) (\<lambda>result.
            io_bind (cleanup_process process) (\<lambda>_.
            io_return result)))
       (\<lambda>e. io_return (failure e))
       session0"

section \<open>Notions used in the statements\<close>

text \<open>The four requests of a session, in the order of the source.\<close>

definition all_requests :: "rpc_request list" where
  "all_requests = [init_request, tools_request, resources_request, prompts_request]"

text \<open>
  A match of the group \<open>([A-Z][A-Z0-9_]{n,})\<close>: at least \<open>n + 1\<close> characters, the first
  one in \<open>[A-Z]\<close>, the others in \<open>[A-Z0-9_]\<close>.
\<close>

definition var_token :: "bool \<Rightarrow> nat \<Rightarrow> string \<Rightarrow> bool" where
  "var_token ic n g =
     (Suc n \<le> length g \<and> cls_mem ic Upper (hd g) \<and> list_all (cls_mem ic Ident) (tl g))"





text \<open>
  The initialize step of a session went through: it returned without taking one of the
  early \<open>return\<close> statements, without an exception and without blocking. The states of
  the session after this step and after the tools step.
\<close>

definition negotiated :: "(string \<Rightarrow> parsed) \<Rightarrow> child \<Rightarrow> bool" where
  "negotiated loads process =
     (case fst (initialize loads process session0) of
        Ret (Inl early) \<Rightarrow> False
      | Ret (Inr values) \<Rightarrow> True
      | Raise e \<Rightarrow> False
      | Hang \<Rightarrow> False)"

definition after_initialize :: "(string \<Rightarrow> parsed) \<Rightarrow> child \<Rightarrow> session" where
  "after_initialize loads process = snd (initialize loads process session0)"

definition after_tools :: "(string \<Rightarrow> parsed) \<Rightarrow> child \<Rightarrow> session" where
  "after_tools loads process =
     snd (request_tools loads process (after_initialize loads process))"

section \<open>Example servers\<close>

text \<open>
  Concrete processes and response lines on which the statements below are evaluated.
  \<open>demo_loads\<close> is \<open>json.loads\<close> on the lines used here; on every other text it raises
  \<open>json.JSONDecodeError\<close>.
\<close>

definition line :: "string \<Rightarrow> string" where
  "line text = text @ [CHR 0x0A]"

definition init_ok_text :: string where
  \<open>init_ok_text = ''{"jsonrpc":"2.0","id":1,"result":{"protocolVersion":"2024-11-05","capabilities":{"tools":{}},"serverInfo":{"name":"demo","version":"1.0"}}}''\<close>

definition init_ok_json :: json where
  "init_ok_json =
     JObj [(''jsonrpc'', JStr ''2.0''), (''id'', JNum 1),
           (''result'', JObj [(''protocolVersion'', JStr ''2024-11-05''),
                              (''capabilities'', JObj [(''tools'', JObj [])]),
                              (''serverInfo'', JObj [(''name'', JStr ''demo''),
                                                     (''version'', JStr ''1.0'')])])]"

definition init_error_text :: string where
  \<open>init_error_text = ''{"jsonrpc":"2.0","id":1,"error":{"code":-32601,"message":"Method not found"}}''\<close>

definition init_error_json :: json where
  "init_error_json =
     JObj [(''jsonrpc'', JStr ''2.0''), (''id'', JNum 1),
           (''error'', JObj [(''code'', JNum (- 32601)),
                             (''message'', JStr ''Method not found'')])]"

definition init_numeric_name_text :: string where
  \<open>init_numeric_name_text = ''{"jsonrpc":"2.0","id":1,"result":{"serverInfo":{"name":5}}}''\<close>

definition init_numeric_name_json :: json where
  "init_numeric_name_json =
     JObj [(''jsonrpc'', JStr ''2.0''), (''id'', JNum 1),
           (''result'', JObj [(''serverInfo'', JObj [(''name'', JNum 5)])])]"

definition tools_ok_text :: string where
  \<open>tools_ok_text = ''{"jsonrpc":"2.0","id":2,"result":{"tools":[{"name":"echo","description":"Echo","inputSchema":{"type":"object","properties":{"text":{"type":"string"}}}}]}}''\<close>

definition tools_ok_json :: json where
  "tools_ok_json =
     JObj [(''jsonrpc'', JStr ''2.0''), (''id'', JNum 2),
           (''result'', JObj [(''tools'', JArr
              [JObj [(''name'', JStr ''echo''), (''description'', JStr ''Echo''),
                     (''inputSchema'', JObj [(''type'', JStr ''object''),
                        (''properties'', JObj [(''text'', JObj [(''type'', JStr ''string'')])])])]])])]"

text \<open>A thousand opening brackets: \<open>json.loads\<close> raises \<open>RecursionError\<close> on this text.\<close>

definition deep_text :: string where
  "deep_text = replicate 1000 (CHR ''['')"

definition recursion_error :: string where
  "recursion_error =
     ''maximum recursion depth exceeded while decoding a JSON array from a unicode string''"

definition demo_loads :: "string \<Rightarrow> parsed" where
  "demo_loads text =
     (if text = deep_text then LoadsError recursion_error
      else case map_of [(init_ok_text, init_ok_json), (init_error_text, init_error_json),
                        (init_numeric_name_text, init_numeric_name_json),
                        (tools_ok_text, tools_ok_json), (''[]'', JArr [])] text of
             Some v \<Rightarrow> Parsed v
           | None \<Rightarrow> DecodeError)"

text \<open>
  A process that stays up, accepts every write, has closed its diagnostic stream, and
  answers the requests with the given lines, one each, before it closes its output.
\<close>

definition scripted_child :: "string list \<Rightarrow> child" where
  "scripted_child lines =
     \<lparr>popen_error = None, returncode = None, stdin_write = (\<lambda>k. None),
      stderr_select = Inr False, stderr_read = (\<lambda>k. Ret []),
      stdout_readline = (\<lambda>k. if k < length lines then Ret (lines ! k) else Ret []),
      cleanup_error = None\<rparr>"

text \<open>A process that stays up, keeps its streams open and never writes anything.\<close>

definition silent_child :: child where
  "silent_child =
     \<lparr>popen_error = None, returncode = None, stdin_write = (\<lambda>k. None),
      stderr_select = Inr False, stderr_read = (\<lambda>k. Hang),
      stdout_readline = (\<lambda>k. Hang), cleanup_error = None\<rparr>"

text \<open>A process that has exited with code 1, without output, when the sleep ends.\<close>

definition early_exit_child :: child where
  "early_exit_child =
     \<lparr>popen_error = None, returncode = Some 1, stdin_write = (\<lambda>k. Some ''[Errno 32] Broken pipe''),
      stderr_select = Inr False, stderr_read = (\<lambda>k. Ret []),
      stdout_readline = (\<lambda>k. Ret []), cleanup_error = None\<rparr>"

text \<open>A process that answers the initialize request and then closes its input.\<close>

definition closing_child :: child where
  "closing_child =
     (scripted_child [line init_ok_text])
       \<lparr>stdin_write := (\<lambda>k. if k = 0 then None else Some ''[Errno 32] Broken pipe'')\<rparr>"




definition database_url_failure :: outcome where
  "database_url_failure =
     (failure ''No response from server'')\<lparr>stderr := Some ''DATABASE_URL''\<rparr>"

definition api_key_failure :: outcome where
  "api_key_failure =
     (failure ''No response from server'')\<lparr>stderr := Some ''Bad API_KEY in config''\<rparr>"

section \<open>Properties of the authentication detector\<close>

declare findall.simps [simp del]

subsection \<open>The branches of the detector\<close>


lemma set_order_remdups: "set_order remdups"
  by (simp add: set_order_def)


lemma stderr_matches_empty: "stderr_matches [] = []"
  by (simp add: stderr_matches_def env_mention_pattern_def var_group_def match_at_def
        findall.simps)

lemma extract_tier3:
  assumes "\<not> success r" and "error_matches (all_errors r) = []"
  shows "extract_auth_from_mcp_result f r =
           Ret (take 5 (f (stderr_matches (get_str (stderr r)))) \<noteq> [],
                take 5 (f (stderr_matches (get_str (stderr r)))))"
  using assms stderr_matches_empty
  by (simp add: extract_auth_from_mcp_result_def Let_def)

lemma ends_var_group:
  assumes "s2 \<in> set (ends ic (var_group n) s1)"
  shows "\<exists>g. s1 = g @ s2 \<and> var_token ic n g"
proof (cases s1)
  case Nil
  with assms show ?thesis by (simp add: var_group_def)
next
  case (Cons c cs)
  with assms have up: "cls_mem ic Upper c"
    and "s2 \<in> set (ends ic [AtLeast n Ident] cs)"
    by (auto simp: var_group_def split: if_splits)
  then obtain j where j: "n \<le> j" "j \<le> length (takeWhile (cls_mem ic Ident) cs)" "s2 = drop j cs"
    by auto
  let ?g = "c # take j cs"
  have "take j cs = take j (takeWhile (cls_mem ic Ident) cs)"
    using j(2) by (metis append_take_drop_id takeWhile_dropWhile_id take_all take_append diff_is_0_eq' take_0 append_Nil2 length_take min.absorb2)
  then have "list_all (cls_mem ic Ident) (take j cs)"
    by (metis list_all_iff in_set_takeD set_takeWhileD)
  moreover have "length (take j cs) = j" using j(2) length_takeWhile_le[of "cls_mem ic Ident" cs] by simp
  ultimately have "var_token ic n ?g" using up j(1) by (simp add: var_token_def)
  moreover have "s1 = ?g @ s2" using Cons j(3) by simp
  ultimately show ?thesis by blast
qed

lemma match_at_var_group:
  assumes "match_at ic ([], var_group n, []) s = Some (g, rest)"
  shows "s = g @ rest \<and> var_token ic n g"
proof -
  from assms have "(g, rest) \<in> set (map (\<lambda>s2. (take (length s - length s2) s, s2)) (ends ic (var_group n) s))"
    by (auto simp: match_at_def comp_def split: list.splits) 
  then obtain s2 where s2: "s2 \<in> set (ends ic (var_group n) s)" "g = take (length s - length s2) s" "rest = s2"
    by auto
  from ends_var_group[OF s2(1)] obtain g' where "s = g' @ s2" "var_token ic n g'" by blast
  then show ?thesis using s2 by simp
qed

lemma findall_var_group_aux:
  "p = ([], var_group n, []) \<Longrightarrow> t \<in> set (findall ic p s) \<Longrightarrow> var_token ic n t"
proof (induction ic p s rule: findall.induct)
  case (1 ic p s)
  note unfold = findall.simps[of ic p s]
  show ?case
  proof (cases "match_at ic p s")
    case None
    with unfold have eq: "findall ic p s = (case s of [] \<Rightarrow> [] | c # cs \<Rightarrow> findall ic p cs)"
      by simp
    show ?thesis
    proof (cases s)
      case Nil
      with eq "1.prems" show ?thesis by simp
    next
      case (Cons c cs)
      with eq "1.prems" have "t \<in> set (findall ic p cs)" by simp
      with "1.IH"(1)[OF None Cons] "1.prems"(1) show ?thesis by simp
    qed
  next
    case (Some a)
    obtain g rest where a: "a = (g, rest)" by (cases a)
    from match_at_var_group Some a "1.prems"(1) have m: "s = g @ rest" "var_token ic n g" by blast+
    then have less: "length rest < length s" by (auto simp: var_token_def)
    with unfold Some a have eq: "findall ic p s = g # findall ic p rest" by simp
    with "1.prems" have "t = g \<or> t \<in> set (findall ic p rest)" by simp
    then show ?thesis
    proof
      assume "t = g" with m show ?thesis by simp
    next
      assume "t \<in> set (findall ic p rest)"
      with "1.IH"(2)[OF Some a[symmetric] less] "1.prems"(1) show ?thesis by simp
    qed
  qed
qed

lemma findall_var_group:
  "t \<in> set (findall ic ([], var_group n, []) s) \<Longrightarrow> var_token ic n t"
  by (rule findall_var_group_aux[OF refl])

lemma distinct_singleton_set:
  assumes "distinct xs" and "set xs = {x}"
  shows "xs = [x]"
proof -
  from assms have "length xs = 1" by (metis distinct_card card_1_singleton_iff One_nat_def)
  then obtain y where "xs = [y]" by (cases xs) auto
  with assms(2) show ?thesis by simp
qed

lemma set_stderr_matches:
  "set (stderr_matches text) =
     {t \<in> set (findall False env_mention_pattern text). has_keyword stderr_keywords t}"
  by (simp add: stderr_matches_def)

lemma stderr_matches_token:
  "t \<in> set (stderr_matches text) \<Longrightarrow> var_token False 4 t"
  by (auto simp: stderr_matches_def env_mention_pattern_def intro: findall_var_group)

lemma take5_of_set_order:
  assumes "set_order f"
  shows "distinct (take 5 (f xs))" and "length (take 5 (f xs)) \<le> 5"
    and "set (take 5 (f xs)) \<subseteq> set xs"
    and "card (set xs) \<le> 5 \<Longrightarrow> set (take 5 (f xs)) = set xs"
    and "take 5 (f xs) = [] \<longleftrightarrow> set xs = {}"
proof -
  from assms have d: "distinct (f xs)" and s: "set (f xs) = set xs"
    by (simp_all add: set_order_def)
  show "distinct (take 5 (f xs))" using d by simp
  show "length (take 5 (f xs)) \<le> 5" by simp
  show "set (take 5 (f xs)) \<subseteq> set xs" using s set_take_subset[of 5 "f xs"] by simp
  show "set (take 5 (f xs)) = set xs" if "card (set xs) \<le> 5"
  proof -
    from d s have "length (f xs) = card (set xs)" by (metis distinct_card)
    with that have "take 5 (f xs) = f xs" by simp
    with s show ?thesis by simp
  qed
  show "take 5 (f xs) = [] \<longleftrightarrow> set xs = {}"
    using s by (cases "f xs") auto
qed


subsection \<open>Characters\<close>

lemma upper_char_other: "c \<notin> set ascii_lowercase \<Longrightarrow> upper_char c = c"
  by (simp add: upper_char_def ascii_lowercase_def ascii_uppercase_def)

lemma lower_char_other: "c \<notin> set ascii_uppercase \<Longrightarrow> lower_char c = c"
  by (simp add: lower_char_def ascii_lowercase_def ascii_uppercase_def)

lemma lowercase_table:
  "list_all (\<lambda>c. upper_char c \<in> set ascii_uppercase \<and> lower_char (upper_char c) = c \<and>
                  lower_char c = c \<and> upper_char c \<notin> set ascii_lowercase \<and>
                  c \<noteq> CHR '' '' \<and> c \<noteq> CHR '':'' \<and> \<not> is_space c)
            ascii_lowercase"
  by code_simp

lemma uppercase_table:
  "list_all (\<lambda>c. lower_char c \<in> set ascii_lowercase \<and> lower_char (lower_char c) = lower_char c \<and>
                  upper_char c = c \<and> lower_char c \<noteq> CHR '' '' \<and> lower_char c \<noteq> CHR '':'' \<and>
                  c \<noteq> CHR '' '' \<and> c \<noteq> CHR '':'' \<and> \<not> is_space c)
            ascii_uppercase"
  by code_simp


lemmas lowercase_facts = lowercase_table[unfolded list_all_iff, rule_format]
lemmas uppercase_facts = uppercase_table[unfolded list_all_iff, rule_format]

lemma lower_upper_char [simp]: "lower_char (upper_char c) = lower_char c"
proof (cases "c \<in> set ascii_lowercase")
  case True
  then show ?thesis using lowercase_facts[OF True] by simp
next
  case False
  then show ?thesis by (simp add: upper_char_other)
qed

lemma lower_lower_char [simp]: "lower_char (lower_char c) = lower_char c"
proof (cases "c \<in> set ascii_uppercase")
  case True
  then show ?thesis using uppercase_facts[OF True] by simp
next
  case False
  then show ?thesis by (simp add: lower_char_other)
qed

lemma upper_upper_char [simp]: "upper_char (upper_char c) = upper_char c"
proof (cases "c \<in> set ascii_lowercase")
  case True
  with lowercase_facts[OF True] show ?thesis by (simp add: upper_char_other)
next
  case False
  then show ?thesis by (simp add: upper_char_other)
qed

lemma lower_upper [simp]: "lower (upper s) = lower s"
  by (simp add: lower_def upper_def)

lemma upper_upper [simp]: "upper (upper s) = upper s"
  by (simp add: upper_def)

lemma upper_append [simp]: "upper (s @ t) = upper s @ upper t"
  by (simp add: upper_def)

lemma upper_Nil [simp]: "upper [] = []"
  by (simp add: upper_def)


lemma length_upper [simp]: "length (upper s) = length s"
  by (simp add: upper_def)

lemma lit_eq_lower_upper [simp]: "lit_eq True (lower_char c) (upper_char c)"
  by (simp add: lit_eq_def)







lemma space_not_ident [simp]: "\<not> cls_mem ic Ident (CHR '' '')"
  by (simp add: ascii_uppercase_def ascii_lowercase_def digits_def)

lemma has_keyword_upper [simp]: "has_keyword kws (upper m) = has_keyword kws m"
  by (simp add: has_keyword_def)

subsection \<open>Matching a phrasing\<close>

declare cls_mem.simps [simp del]









lemma lower_eq_Nil [simp]: "(lower p = []) = (p = [])"
  by (simp add: lower_def)



lemma upper_space [simp]: "upper_char (CHR '' '') = CHR '' ''" "upper_char (CHR '':'') = CHR '':''"
  by (simp_all add: upper_char_def ascii_lowercase_def ascii_uppercase_def)





subsection \<open>Scanning past the error text\<close>

lemma lits_Nil [simp]: "lits [] = []"
  by (simp add: lits_def)

lemma ends_lits_Nil [simp]:
  "ends True (lits []) s = [s]" "ends True (lits [] @ items) s = ends True items s"
  by (simp_all add: lits_def)

lemma ends_lits_Cons [simp]:
  "ends True (lits (c # w)) (d # s) = (if lit_eq True c d then ends True (lits w) s else [])"
  "ends True (lits (c # w) @ items) (d # s) =
     (if lit_eq True c d then ends True (lits w @ items) s else [])"
  by (simp_all add: lits_def)












subsection \<open>Recognising a phrasing\<close>






subsection \<open>The claims about the detector\<close>



text \<open>
  C6, as the code has it. When the connection failed and no error pattern yielded a
  variable, the variables returned are taken from the tokens that the scan of the
  diagnostic text finds (an upper-case letter followed by at least four characters of
  \<open>[A-Z0-9_]\<close>) and that contain one of \<open>key\<close>, \<open>token\<close>, \<open>secret\<close>, \<open>auth\<close>,
  \<open>api\<close>: the list of this step, which has neither \<open>url\<close> nor \<open>client\<close>. At most five
  distinct ones are returned, all of them when there are at most five, and authentication
  is reported as required exactly when the list is not empty.
\<close>

theorem extract_auth_stderr_scan:
  assumes "\<not> success r" and "set_order list_of_set" and "error_matches (all_errors r) = []"
  shows "\<exists>vars. extract_auth_from_mcp_result list_of_set r = Ret (vars \<noteq> [], vars) \<and>
           distinct vars \<and> length vars \<le> 5 \<and>
           set vars \<subseteq> {t \<in> set (findall False env_mention_pattern (get_str (stderr r))).
                          has_keyword stderr_keywords t} \<and>
           (card {t \<in> set (findall False env_mention_pattern (get_str (stderr r))).
                    has_keyword stderr_keywords t} \<le> 5 \<longrightarrow>
              set vars = {t \<in> set (findall False env_mention_pattern (get_str (stderr r))).
                            has_keyword stderr_keywords t}) \<and>
           (vars = [] \<longleftrightarrow>
              {t \<in> set (findall False env_mention_pattern (get_str (stderr r))).
                 has_keyword stderr_keywords t} = {}) \<and>
           (\<forall>t \<in> set vars. var_token False 4 t)"
proof -
  let ?found = "stderr_matches (get_str (stderr r))"
  let ?vars = "take 5 (list_of_set ?found)"
  note t5 = take5_of_set_order[OF assms(2), of ?found]
  have shape: "\<forall>t \<in> set ?vars. var_token False 4 t"
    using t5(3) stderr_matches_token by blast
  show ?thesis
    using extract_tier3[OF assms(1) assms(3), of list_of_set] t5 shape
    unfolding set_stderr_matches by blast
qed

theorem extract_auth_stderr_scan_witness:
  "\<not> success api_key_failure \<and> set_order remdups \<and>
   error_matches (all_errors api_key_failure) = [] \<and>
   extract_auth_from_mcp_result remdups api_key_failure = Ret (True, [''API_KEY'']) \<and>
   var_token False 4 ''API_KEY''"
proof -
  have failed: "\<not> success api_key_failure"
    by (simp add: api_key_failure_def failure_def)
  have none: "error_matches (all_errors api_key_failure) = []"
    by code_simp
  have scan: "{t \<in> set (findall False env_mention_pattern (get_str (stderr api_key_failure))).
                 has_keyword stderr_keywords t} = {''API_KEY''}"
    by code_simp
  from extract_auth_stderr_scan[OF failed set_order_remdups none]
  obtain vars where vars:
      "extract_auth_from_mcp_result remdups api_key_failure = Ret (vars \<noteq> [], vars)"
      "distinct vars"
      "card {t \<in> set (findall False env_mention_pattern (get_str (stderr api_key_failure))).
               has_keyword stderr_keywords t} \<le> 5 \<longrightarrow>
       set vars = {t \<in> set (findall False env_mention_pattern (get_str (stderr api_key_failure))).
                     has_keyword stderr_keywords t}"
      "\<forall>t \<in> set vars. var_token False 4 t"
    by blast
  from vars(3) scan have "set vars = {''API_KEY''}" by simp
  with vars(2) have "vars = [''API_KEY'']" by (rule distinct_singleton_set)
  with vars(1,4) failed none show ?thesis
    using set_order_remdups by simp
qed

text \<open>
  C6, as the claim has it, fails: \<open>DATABASE_URL\<close> is a token of the scan and contains
  \<open>url\<close>, a keyword of the allowlist of the error patterns, yet the detector returns no
  variable and reports that authentication is not required.
\<close>

theorem stderr_scan_rejects_url:
  "\<not> success database_url_failure \<and>
   error_matches (all_errors database_url_failure) = [] \<and>
   findall False env_mention_pattern (get_str (stderr database_url_failure)) = [''DATABASE_URL''] \<and>
   var_token False 4 ''DATABASE_URL'' \<and>
   has_keyword auth_keywords ''DATABASE_URL'' \<and>
   extract_auth_from_mcp_result remdups database_url_failure = Ret (False, [])"
  by code_simp

text \<open>
  C2. A server whose initialize response reports \<open>{"serverInfo": {"name": 5}}\<close> gives a
  successful outcome, on which the detector raises instead of returning \<open>(False, [])\<close>:
  the inspection of the server information calls \<open>.lower()\<close> on the number.
\<close>

theorem extract_auth_raises_on_numeric_server_name:
  "(case fst (connect_to_mcp (\<lambda>argv. scripted_child [line init_numeric_name_text]) demo_loads
                ''npx -y demo-server'') of
      Ret r \<Rightarrow> success r \<and> server_info r = Some (JObj [(''name'', JNum 5)]) \<and>
               extract_auth_from_mcp_result remdups r =
                 Raise (quoted ''int'' @ '' object has no attribute '' @ quoted ''lower'')
    | Raise e \<Rightarrow> False
    | Hang \<Rightarrow> False)"
  by code_simp

text \<open>
  On a successful outcome whose server information is empty, or is a dictionary whose name
  and version are strings where present, the detector returns \<open>(False, [])\<close> whatever the
  diagnostic text is.
\<close>

lemma extract_auth_connected:
  assumes "success r"
    and "server_info r = None \<or> server_info r = Some (JObj members)"
    and "map_of members ''name'' = None \<or> map_of members ''name'' = Some (JStr name)"
    and "map_of members ''version'' = None \<or> map_of members ''version'' = Some (JStr version)"
  shows "extract_auth_from_mcp_result list_of_set r = Ret (False, [])"
  using assms
  by (auto simp: extract_auth_from_mcp_result_def inspect_server_info_def bind_res_def)

section \<open>Properties of the protocol client\<close>

lemmas io_defs = io_bind_def io_return_def io_lift_def try_except_def

subsection \<open>The steps of the exchange\<close>

lemma peek_stderr_sent [simp]: "sent (snd (peek_stderr c s)) = sent s"
  by (simp add: peek_stderr_def io_defs read_stderr_def split: sum.splits res.splits)

lemma peek_stderr_reads [simp]: "reads (snd (peek_stderr c s)) = reads s"
  by (simp add: peek_stderr_def io_defs read_stderr_def split: sum.splits res.splits)

lemma peek_stderr_not_raise [simp]: "fst (peek_stderr c s) \<noteq> Raise e"
  by (simp add: peek_stderr_def io_defs read_stderr_def split: sum.splits res.splits)

lemma peek_stderr_returns:
  assumes "stderr_select c = Inr True \<longrightarrow> stderr_read c (err_reads s) \<noteq> Hang"
  shows "\<exists>text s'. peek_stderr c s = (Ret text, s') \<and> sent s' = sent s \<and> reads s' = reads s"
  using assms
  by (cases "stderr_select c"; cases "stderr_read c (err_reads s)")
     (auto simp: peek_stderr_def io_defs read_stderr_def)

lemma initialize_sent: "sent (snd (initialize loads c s)) = sent s @ [init_request]"
  apply (simp add: initialize_def io_bind_def write_request_def split: option.splits parsed.splits)
  apply (cases "peek_stderr c (s\<lparr>sent := sent s @ [init_request]\<rparr>)")
  subgoal for r s1
    using peek_stderr_sent[of c "s\<lparr>sent := sent s @ [init_request]\<rparr>"]
    apply (cases r)
    apply (simp_all add: io_defs readline_def split: res.splits option.splits parsed.splits)
    done
  done

lemma initialize_reads:
  "initialize loads c s = (Ret x, s') \<Longrightarrow> reads s' = Suc (reads s)"
  apply (simp add: initialize_def io_bind_def write_request_def split: option.splits parsed.splits)
  apply (cases "peek_stderr c (s\<lparr>sent := sent s @ [init_request]\<rparr>)")
  subgoal for r s1
    using peek_stderr_reads[of c "s\<lparr>sent := sent s @ [init_request]\<rparr>"]
    apply (cases r)
    apply (auto simp add: io_defs readline_def split: res.splits option.splits parsed.splits if_splits)
    done
  done

lemma request_tools_sent: "sent (snd (request_tools loads c s)) = sent s @ [tools_request]"
  by (simp add: request_tools_def io_defs write_request_def readline_def
           split: option.splits parsed.splits res.splits)

lemma request_tools_reads: "request_tools loads c s = (Ret x, s') \<Longrightarrow> reads s' = Suc (reads s)"
  by (auto simp add: request_tools_def io_defs write_request_def readline_def
           split: option.splits parsed.splits res.splits if_splits)

lemma request_resources_sent: "sent (snd (request_resources loads c s)) = sent s @ [resources_request]"
  by (simp add: request_resources_def io_defs write_request_def readline_def
           split: option.splits parsed.splits res.splits)

lemma request_resources_reads: "request_resources loads c s = (Ret x, s') \<Longrightarrow> reads s' = Suc (reads s)"
  by (auto simp add: request_resources_def io_defs write_request_def readline_def
           split: option.splits parsed.splits res.splits if_splits)

lemma request_prompts_sent: "sent (snd (request_prompts loads c s)) = sent s @ [prompts_request]"
  by (simp add: request_prompts_def io_defs write_request_def readline_def
           split: option.splits parsed.splits res.splits)

lemma request_additional_sent:
  "sent (snd (request_additional loads c s)) =
     (case fst (request_resources loads c s) of
        Ret _ \<Rightarrow> sent s @ [resources_request, prompts_request]
      | _ \<Rightarrow> sent s @ [resources_request])"
proof (cases "request_resources loads c s")
  case (Pair r s1)
  from request_resources_sent[of loads c s] Pair have s1: "sent s1 = sent s @ [resources_request]" by simp
  show ?thesis
  proof (cases r)
    case (Ret u)
    obtain r2 s2 where p: "request_prompts loads c s1 = (r2, s2)" by (cases "request_prompts loads c s1")
    with request_prompts_sent[of loads c s1] s1 have "sent s2 = sent s @ [resources_request, prompts_request]" by simp
    with Pair Ret p show ?thesis
      by (cases r2) (simp_all add: request_additional_def io_defs)
  next
    case (Raise e) with Pair s1 show ?thesis by (simp add: request_additional_def io_defs)
  next
    case Hang with Pair s1 show ?thesis by (simp add: request_additional_def io_defs)
  qed
qed

lemma request_additional_not_raise: "fst (request_additional loads c s) \<noteq> Raise e"
  by (simp add: request_additional_def io_defs split: prod.splits res.splits)

lemma summarize_state [simp]: "snd (summarize a b c d s) = s"
  by (simp add: summarize_def)

lemma request_tools_quiet:
  assumes "stdin_write c (length (sent s)) = None" and "stdout_readline c (reads s) = Ret l"
    and "l = [] \<or> loads (strip l) = DecodeError"
  shows "request_tools loads c s =
           (Ret (), s\<lparr>sent := sent s @ [tools_request], reads := Suc (reads s),
                      tools_local := JArr [], resources_local := JArr [],
                      prompts_local := JArr []\<rparr>)"
  using assms
  by (auto simp: request_tools_def io_defs write_request_def readline_def)

lemma request_resources_quiet:
  assumes "stdin_write c (length (sent s)) = None" and "stdout_readline c (reads s) = Ret l"
    and "l = [] \<or> loads (strip l) = DecodeError"
  shows "request_resources loads c s =
           (Ret (), s\<lparr>sent := sent s @ [resources_request], reads := Suc (reads s)\<rparr>)"
  using assms
  by (auto simp: request_resources_def io_defs write_request_def readline_def)

lemma request_prompts_quiet:
  assumes "stdin_write c (length (sent s)) = None" and "stdout_readline c (reads s) = Ret l"
    and "l = [] \<or> loads (strip l) = DecodeError"
  shows "request_prompts loads c s =
           (Ret (), s\<lparr>sent := sent s @ [prompts_request], reads := Suc (reads s)\<rparr>)"
  using assms
  by (auto simp: request_prompts_def io_defs write_request_def readline_def)

subsection \<open>The exchange as a whole\<close>

lemma exchange_sent:
  "sent (snd (exchange loads c s)) =
     (case initialize loads c s of
        (Ret (Inr x), s1) \<Rightarrow>
          (case request_tools loads c s1 of
             (Ret u, s2) \<Rightarrow>
               (case fst (request_resources loads c s2) of
                  Ret u' \<Rightarrow> sent s @ all_requests
                | _ \<Rightarrow> sent s @ take 3 all_requests)
           | _ \<Rightarrow> sent s @ take 2 all_requests)
      | _ \<Rightarrow> sent s @ [init_request])"
proof (cases "initialize loads c s")
  case (Pair r s1)
  from initialize_sent[of loads c s] Pair have s1: "sent s1 = sent s @ [init_request]" by simp
  show ?thesis
  proof (cases "\<exists>x. r = Ret (Inr x)")
    case False
    with Pair s1 show ?thesis
      by (cases r) (auto simp: exchange_def io_defs split: sum.splits)
  next
    case True
    then obtain sd pv si cp where r: "r = Ret (Inr (sd, pv, si, cp))" by (metis prod_cases4)
    obtain r2 s2 where t: "request_tools loads c s1 = (r2, s2)" by (cases "request_tools loads c s1")
    from request_tools_sent[of loads c s1] t s1 have s2: "sent s2 = sent s @ [init_request, tools_request]"
      by simp
    show ?thesis
    proof (cases "\<exists>u. r2 = Ret u")
      case False
      with Pair r t s2 show ?thesis
        by (cases r2) (auto simp: exchange_def io_defs all_requests_def)
    next
      case True
      then have r2: "r2 = Ret ()" by auto
      obtain r3 s3 where a: "request_additional loads c s2 = (r3, s3)"
        by (cases "request_additional loads c s2")
      from request_additional_sent[of loads c s2] a
      have s3: "sent s3 = (case fst (request_resources loads c s2) of
                   Ret _ \<Rightarrow> sent s2 @ [resources_request, prompts_request]
                 | _ \<Rightarrow> sent s2 @ [resources_request])" by simp
      have "sent (snd (exchange loads c s)) = sent s3"
        using Pair r t r2 a by (cases r3) (simp_all add: exchange_def io_defs)
      with s3 s2 Pair r t r2 show ?thesis
        by (simp add: all_requests_def split: res.splits)
    qed
  qed
qed

lemma exchange_result:
  "fst (exchange loads c s) =
     (case initialize loads c s of
        (Ret (Inl early), s1) \<Rightarrow> Ret early
      | (Ret (Inr (sd, pv, si, cp)), s1) \<Rightarrow>
          (case request_tools loads c s1 of
             (Ret u, s2) \<Rightarrow>
               (case request_additional loads c s2 of
                  (Ret u', s3) \<Rightarrow> fst (summarize sd pv si cp s3)
                | (Raise e, s3) \<Rightarrow> Raise e
                | (Hang, s3) \<Rightarrow> Hang)
           | (Raise e, s2) \<Rightarrow> Raise e
           | (Hang, s2) \<Rightarrow> Hang)
      | (Raise e, s1) \<Rightarrow> Raise e
      | (Hang, s1) \<Rightarrow> Hang)"
  by (simp add: exchange_def io_defs split: prod.splits res.splits sum.splits)

subsection \<open>Cleanup and the outer handlers\<close>

lemma cleanup_process_result [simp]: "fst (cleanup_process c s) = Ret ()"
  by (simp add: cleanup_process_def io_defs split: option.splits parsed.splits)

lemma cleanup_process_sent [simp]: "sent (snd (cleanup_process c s)) = sent s"
  by (simp add: cleanup_process_def io_defs split: option.splits parsed.splits)

lemma communicate_sent:
  "sent (snd (communicate_with_server loads c s)) = sent (snd (exchange loads c s))"
  by (simp add: communicate_with_server_def io_defs read_stderr_def split: prod.splits res.splits)

lemma communicate_result:
  "fst (communicate_with_server loads c s) =
     (case exchange loads c s of
        (Ret r, s1) \<Rightarrow> Ret r
      | (Raise e, s1) \<Rightarrow>
          (case stderr_read c (err_reads s1) of
             Ret text \<Rightarrow> Ret ((failure e)\<lparr>stderr := Some text\<rparr>)
           | Raise e' \<Rightarrow> Ret ((failure e)\<lparr>stderr := Some []\<rparr>)
           | Hang \<Rightarrow> Hang)
      | (Hang, s1) \<Rightarrow> Hang)"
  by (simp add: communicate_with_server_def io_defs read_stderr_def split: prod.splits res.splits)

lemma connect_not_started:
  "start_mcp_server os command = None \<Longrightarrow>
     connect_to_mcp os loads command = (Ret (failure ''Failed to start MCP server''), session0)"
  by (simp add: connect_to_mcp_def io_defs)

lemma connect_sent:
  "start_mcp_server os command = Some c \<Longrightarrow>
     sent (snd (connect_to_mcp os loads command)) = sent (snd (exchange loads c session0))"
proof -
  assume st: "start_mcp_server os command = Some c"
  obtain r s1 where cm: "communicate_with_server loads c session0 = (r, s1)"
    by (cases "communicate_with_server loads c session0")
  obtain r2 s2 where cl: "cleanup_process c s1 = (r2, s2)" by (cases "cleanup_process c s1")
  from cleanup_process_result[of c s1] cleanup_process_sent[of c s1] cl
  have "r2 = Ret ()" "sent s2 = sent s1" by simp_all
  with st cm cl have "sent (snd (connect_to_mcp os loads command)) = sent s1"
    by (cases r) (simp_all add: connect_to_mcp_def io_defs)
  with communicate_sent[of loads c session0] cm show ?thesis by simp
qed

lemma connect_result:
  "start_mcp_server os command = Some c \<Longrightarrow>
     fst (connect_to_mcp os loads command) = fst (communicate_with_server loads c session0)"
proof -
  assume st: "start_mcp_server os command = Some c"
  obtain r s1 where cm: "communicate_with_server loads c session0 = (r, s1)"
    by (cases "communicate_with_server loads c session0")
  obtain r2 s2 where cl: "cleanup_process c s1 = (r2, s2)" by (cases "cleanup_process c s1")
  from cleanup_process_result[of c s1] cl have r2: "r2 = Ret ()" by simp
  from communicate_result[of loads c session0] cm have "\<forall>e. r \<noteq> Raise e"
    by (auto split: prod.splits res.splits)
  with st cm cl r2 show ?thesis
    by (cases r) (simp_all add: connect_to_mcp_def io_defs)
qed

subsection \<open>What a returned outcome looks like\<close>

lemma initialize_early:
  "initialize loads c s = (Ret (Inl early), s') \<Longrightarrow> \<not> success early \<and> error early \<noteq> None"
  by (auto simp: initialize_def io_defs failure_def bind_res_def
           split: prod.splits res.splits option.splits parsed.splits if_splits)

lemma summarize_result:
  "fst (summarize sd pv si cp s) = Ret r \<Longrightarrow>
     success r \<and> error r = None \<and> protocol_version r = Some pv \<and>
     server_info r = Some si \<and> capabilities r = Some cp"
  by (auto simp: summarize_def bind_res_def split: res.splits)

lemma exchange_returns:
  assumes "exchange loads c s = (Ret r, s')"
  shows "(\<exists>s1. initialize loads c s = (Ret (Inl r), s1)) \<or>
         (\<exists>sd pv si cp s1 s3. initialize loads c s = (Ret (Inr (sd, pv, si, cp)), s1) \<and>
            fst (summarize sd pv si cp s3) = Ret r)"
proof -
  from assms have "fst (exchange loads c s) = Ret r" by simp
  then show ?thesis
    unfolding exchange_result
    by (auto split: prod.splits res.splits sum.splits)
qed

lemma connect_returns:
  assumes "fst (connect_to_mcp os loads command) = Ret r"
  shows "(start_mcp_server os command = None \<and> r = failure ''Failed to start MCP server'') \<or>
         (\<exists>c. start_mcp_server os command = Some c \<and>
            ((\<exists>s1. initialize loads c session0 = (Ret (Inl r), s1)) \<or>
             (\<exists>sd pv si cp s1 s3.
                initialize loads c session0 = (Ret (Inr (sd, pv, si, cp)), s1) \<and>
                fst (summarize sd pv si cp s3) = Ret r) \<or>
             (\<exists>e text. r = (failure e)\<lparr>stderr := Some text\<rparr>)))"
proof (cases "start_mcp_server os command")
  case None
  with assms connect_not_started[OF None, of loads] show ?thesis by simp
next
  case (Some c)
  obtain x s1 where ex: "exchange loads c session0 = (x, s1)"
    by (cases "exchange loads c session0")
  from assms connect_result[OF Some, of loads]
  have cm: "fst (communicate_with_server loads c session0) = Ret r" by simp
  show ?thesis
  proof (cases x)
    case (Ret r')
    with cm ex have "r' = r" by (simp add: communicate_result)
    with exchange_returns[of loads c session0 r s1] ex Ret Some show ?thesis by blast
  next
    case (Raise e)
    with cm ex have "\<exists>text. r = (failure e)\<lparr>stderr := Some text\<rparr>"
      by (auto simp: communicate_result split: res.splits)
    with Some show ?thesis by blast
  next
    case Hang
    with cm ex show ?thesis by (simp add: communicate_result)
  qed
qed


subsection \<open>The order of the requests\<close>

lemma negotiated_initialize:
  assumes "negotiated loads c"
  shows "\<exists>x. initialize loads c session0 = (Ret (Inr x), after_initialize loads c)"
  using assms
  by (cases "initialize loads c session0")
     (auto simp: negotiated_def after_initialize_def split: res.splits sum.splits)

lemma after_initialize_sent: "sent (after_initialize loads c) = [init_request]"
  by (simp add: after_initialize_def initialize_sent session0_def)

lemma after_initialize_reads:
  assumes "negotiated loads c"
  shows "reads (after_initialize loads c) = Suc 0"
proof -
  from negotiated_initialize[OF assms] obtain x
    where "initialize loads c session0 = (Ret (Inr x), after_initialize loads c)" by blast
  from initialize_reads[OF this] show ?thesis by (simp add: session0_def)
qed

lemma connect_sent_not_negotiated:
  assumes "start_mcp_server os command = Some c" and "\<not> negotiated loads c"
  shows "sent (snd (connect_to_mcp os loads command)) = [init_request]"
  using assms(2)
  unfolding connect_sent[OF assms(1)] exchange_sent
  by (auto simp: negotiated_def session0_def split: prod.splits res.splits sum.splits)

lemma connect_sent_negotiated:
  assumes "start_mcp_server os command = Some c" and "negotiated loads c"
  shows "sent (snd (connect_to_mcp os loads command)) =
           (case fst (request_tools loads c (after_initialize loads c)) of
              Ret u \<Rightarrow>
                (case fst (request_resources loads c (after_tools loads c)) of
                   Ret u' \<Rightarrow> all_requests
                 | Raise e \<Rightarrow> take 3 all_requests
                 | Hang \<Rightarrow> take 3 all_requests)
            | Raise e \<Rightarrow> take 2 all_requests
            | Hang \<Rightarrow> take 2 all_requests)"
proof -
  from negotiated_initialize[OF assms(2)] obtain x
    where init: "initialize loads c session0 = (Ret (Inr x), after_initialize loads c)" by blast
  obtain r2 s2 where t: "request_tools loads c (after_initialize loads c) = (r2, s2)"
    by (cases "request_tools loads c (after_initialize loads c)")
  then have s2: "after_tools loads c = s2" by (simp add: after_tools_def)
  show ?thesis
    unfolding connect_sent[OF assms(1)] exchange_sent init
    using t s2
    by (cases r2) (simp_all add: session0_def split: res.splits)
qed

lemma after_tools_counters:
  assumes "negotiated loads c"
    and "fst (request_tools loads c (after_initialize loads c)) = Ret ()"
  shows "length (sent (after_tools loads c)) = 2" and "reads (after_tools loads c) = 2"
proof -
  obtain s2 where t: "request_tools loads c (after_initialize loads c) = (Ret (), s2)"
    using assms(2) by (cases "request_tools loads c (after_initialize loads c)") simp
  then have s2: "after_tools loads c = s2" by (simp add: after_tools_def)
  from request_tools_sent[of loads c "after_initialize loads c"] t
  show "length (sent (after_tools loads c)) = 2"
    by (simp add: s2 after_initialize_sent)
  from request_tools_reads[OF t] after_initialize_reads[OF assms(1)]
  show "reads (after_tools loads c) = 2"
    by (simp add: s2)
qed

subsection \<open>A response without a result member, and quiet list calls\<close>

lemma initialize_no_result:
  assumes "stdin_write c 0 = None"
    and "stderr_select c = Inr True \<longrightarrow> stderr_read c 0 \<noteq> Hang"
    and "stdout_readline c 0 = Ret l" and "l \<noteq> []"
    and "loads (strip l) = Parsed (JObj members)" and "map_of members ''result'' = None"
  shows "\<exists>sd. fst (initialize loads c session0) = Ret (Inr (sd, JNull, JObj [], JObj []))"
proof -
  let ?s = "session0\<lparr>sent := sent session0 @ [init_request]\<rparr>"
  have "stderr_select c = Inr True \<longrightarrow> stderr_read c (err_reads ?s) \<noteq> Hang"
    using assms(2) by (simp add: session0_def)
  from peek_stderr_returns[OF this] obtain sd s'
    where peek: "peek_stderr c ?s = (Ret sd, s')" and unread: "reads s' = 0"
    by (auto simp: session0_def)
  have "fst (initialize loads c session0) = Ret (Inr (sd, JNull, JObj [], JObj []))"
    using assms(1,3-6) peek unread
    by (simp add: initialize_def io_defs write_request_def readline_def bind_res_def
          session0_def)
  then show ?thesis by blast
qed

lemma quiet_lists_succeed:
  assumes "negotiated loads c"
    and "\<forall>k \<in> {1, 2, 3}. stdin_write c k = None \<and>
           (\<exists>t. stdout_readline c k = Ret t \<and> (t = [] \<or> loads (strip t) = DecodeError))"
  shows "\<exists>r. fst (exchange loads c session0) = Ret r \<and> success r \<and> tools r = Some (JArr [])"
proof -
  from negotiated_initialize[OF assms(1)] obtain sd pv si cp
    where init: "initialize loads c session0 = (Ret (Inr (sd, pv, si, cp)), after_initialize loads c)"
    by (metis prod_cases4)
  let ?s1 = "after_initialize loads c"
  let ?s2 = "?s1\<lparr>sent := sent ?s1 @ [tools_request], reads := Suc (reads ?s1),
                   tools_local := JArr [], resources_local := JArr [],
                   prompts_local := JArr []\<rparr>"
  let ?s3 = "?s2\<lparr>sent := sent ?s2 @ [resources_request], reads := Suc (reads ?s2)\<rparr>"
  let ?s4 = "?s3\<lparr>sent := sent ?s3 @ [prompts_request], reads := Suc (reads ?s3)\<rparr>"
  have s1: "length (sent ?s1) = 1" "reads ?s1 = 1"
    using after_initialize_sent[of loads c] after_initialize_reads[OF assms(1)] by simp_all
  from assms(2) obtain t1 t2 t3 where
    q1: "stdin_write c 1 = None" "stdout_readline c 1 = Ret t1" "t1 = [] \<or> loads (strip t1) = DecodeError" and
    q2: "stdin_write c 2 = None" "stdout_readline c 2 = Ret t2" "t2 = [] \<or> loads (strip t2) = DecodeError" and
    q3: "stdin_write c 3 = None" "stdout_readline c 3 = Ret t3" "t3 = [] \<or> loads (strip t3) = DecodeError"
    by auto
  have tools: "request_tools loads c ?s1 = (Ret (), ?s2)"
    using q1 s1 by (intro request_tools_quiet[where l = t1]) simp_all
  have res: "request_resources loads c ?s2 = (Ret (), ?s3)"
    using q2 s1 by (intro request_resources_quiet[where l = t2]) (simp_all add: numeral_2_eq_2)
  have pro: "request_prompts loads c ?s3 = (Ret (), ?s4)"
    using q3 s1 by (intro request_prompts_quiet[where l = t3]) (simp_all add: numeral_3_eq_3)
  have add: "request_additional loads c ?s2 = (Ret (), ?s4)"
    using res pro by (simp add: request_additional_def io_defs)
  have "fst (exchange loads c session0) = fst (summarize sd pv si cp ?s4)"
    unfolding exchange_result init using tools add by simp
  then show ?thesis
    by (simp add: summarize_def bind_res_def)
qed

subsection \<open>How failures are reported\<close>









subsection \<open>The claims about the protocol client\<close>




text \<open>
  C3, as the code has it. When the initialize step fails, no list request is written.
  When the tools step ends in an exception (a write or read error, an exception of
  \<open>json.loads\<close> other than \<open>json.JSONDecodeError\<close>, or a JSON response of the wrong shape)
  or blocks, neither resources/list nor prompts/list is written. When the resources step
  ends in an exception or blocks, prompts/list is not written. A response line that is
  missing, or on which \<open>json.loads\<close> raises \<open>json.JSONDecodeError\<close>, does not end the
  sequence: after such a line for the tools request the resources request is written,
  and after such a line for the resources request the prompts request is written.
\<close>

theorem failure_short_circuits:
  assumes "start_mcp_server os command = Some c"
  shows "(\<not> negotiated loads c \<longrightarrow>
            sent (snd (connect_to_mcp os loads command)) = [init_request]) \<and>
         (negotiated loads c \<and>
          fst (request_tools loads c (after_initialize loads c)) \<noteq> Ret () \<longrightarrow>
            sent (snd (connect_to_mcp os loads command)) = [init_request, tools_request]) \<and>
         (negotiated loads c \<and>
          fst (request_tools loads c (after_initialize loads c)) = Ret () \<and>
          fst (request_resources loads c (after_tools loads c)) \<noteq> Ret () \<longrightarrow>
            sent (snd (connect_to_mcp os loads command)) =
              [init_request, tools_request, resources_request]) \<and>
         (\<forall>l1. negotiated loads c \<and> stdin_write c 1 = None \<and> stdout_readline c 1 = Ret l1 \<and>
            (l1 = [] \<or> loads (strip l1) = DecodeError) \<longrightarrow>
            take 3 (sent (snd (connect_to_mcp os loads command))) =
              [init_request, tools_request, resources_request]) \<and>
         (\<forall>l2. negotiated loads c \<and>
            fst (request_tools loads c (after_initialize loads c)) = Ret () \<and>
            stdin_write c 2 = None \<and> stdout_readline c 2 = Ret l2 \<and>
            (l2 = [] \<or> loads (strip l2) = DecodeError) \<longrightarrow>
            sent (snd (connect_to_mcp os loads command)) =
              [init_request, tools_request, resources_request, prompts_request])"
proof (intro conjI impI allI)
  assume "\<not> negotiated loads c"
  then show "sent (snd (connect_to_mcp os loads command)) = [init_request]"
    by (rule connect_sent_not_negotiated[OF assms])
next
  assume "negotiated loads c \<and> fst (request_tools loads c (after_initialize loads c)) \<noteq> Ret ()"
  then show "sent (snd (connect_to_mcp os loads command)) = [init_request, tools_request]"
    using connect_sent_negotiated[OF assms, of loads]
    by (auto simp: all_requests_def split: res.splits)
next
  assume "negotiated loads c \<and>
          fst (request_tools loads c (after_initialize loads c)) = Ret () \<and>
          fst (request_resources loads c (after_tools loads c)) \<noteq> Ret ()"
  then show "sent (snd (connect_to_mcp os loads command)) =
               [init_request, tools_request, resources_request]"
    using connect_sent_negotiated[OF assms, of loads]
    by (auto simp: all_requests_def split: res.splits)
next
  fix l1
  assume q: "negotiated loads c \<and> stdin_write c 1 = None \<and> stdout_readline c 1 = Ret l1 \<and>
            (l1 = [] \<or> loads (strip l1) = DecodeError)"
  let ?s1 = "after_initialize loads c"
  have s1: "length (sent ?s1) = 1" "reads ?s1 = 1"
    using after_initialize_sent[of loads c] after_initialize_reads q by simp_all
  from q s1 have "fst (request_tools loads c ?s1) = Ret ()"
    using request_tools_quiet[of c ?s1 l1 loads] by simp
  with q show "take 3 (sent (snd (connect_to_mcp os loads command))) =
                 [init_request, tools_request, resources_request]"
    using connect_sent_negotiated[OF assms, of loads]
    by (auto simp: all_requests_def split: res.splits)
next
  fix l2
  assume q: "negotiated loads c \<and>
            fst (request_tools loads c (after_initialize loads c)) = Ret () \<and>
            stdin_write c 2 = None \<and> stdout_readline c 2 = Ret l2 \<and>
            (l2 = [] \<or> loads (strip l2) = DecodeError)"
  then have s2: "length (sent (after_tools loads c)) = 2" "reads (after_tools loads c) = 2"
    using after_tools_counters by blast+
  from q s2 have "fst (request_resources loads c (after_tools loads c)) = Ret ()"
    using request_resources_quiet[of c "after_tools loads c" l2 loads] by simp
  with q show "sent (snd (connect_to_mcp os loads command)) =
                 [init_request, tools_request, resources_request, prompts_request]"
    using connect_sent_negotiated[OF assms, of loads]
    by (simp add: all_requests_def)
qed

theorem failure_short_circuits_witness:
  "\<not> negotiated demo_loads (scripted_child []) \<and>
   sent (snd (connect_to_mcp (\<lambda>argv. scripted_child []) demo_loads ''npx -y demo-server''))
     = [init_request] \<and>
   negotiated demo_loads closing_child \<and>
   fst (request_tools demo_loads closing_child (after_initialize demo_loads closing_child))
     = Raise ''[Errno 32] Broken pipe'' \<and>
   sent (snd (connect_to_mcp (\<lambda>argv. closing_child) demo_loads ''npx -y demo-server''))
     = [init_request, tools_request] \<and>
   fst (request_resources demo_loads
          (scripted_child [line init_ok_text, line tools_ok_text, line ''[]''])
          (after_tools demo_loads
             (scripted_child [line init_ok_text, line tools_ok_text, line ''[]''])))
     = Raise (quoted ''list'' @ '' object has no attribute '' @ quoted ''get'') \<and>
   sent (snd (connect_to_mcp
               (\<lambda>argv. scripted_child [line init_ok_text, line tools_ok_text, line ''[]''])
               demo_loads ''npx -y demo-server''))
     = [init_request, tools_request, resources_request] \<and>
   fst (request_tools demo_loads (scripted_child [line init_ok_text, line deep_text])
          (after_initialize demo_loads (scripted_child [line init_ok_text, line deep_text])))
     = Raise recursion_error \<and>
   sent (snd (connect_to_mcp (\<lambda>argv. scripted_child [line init_ok_text, line deep_text])
               demo_loads ''npx -y demo-server''))
     = [init_request, tools_request] \<and>
   demo_loads (strip (line ''Server listening on stdio'')) = DecodeError \<and>
   sent (snd (connect_to_mcp
          (\<lambda>argv. scripted_child [line init_ok_text, line tools_ok_text,
                                   line ''Server listening on stdio''])
          demo_loads ''npx -y demo-server''))
     = [init_request, tools_request, resources_request, prompts_request]"
proof -
  let ?cmd = "''npx -y demo-server''"
  let ?c3 = "scripted_child [line init_ok_text, line tools_ok_text, line ''[]'']"
  let ?c4 = "scripted_child [line init_ok_text, line deep_text]"
  let ?c5 = "scripted_child [line init_ok_text, line tools_ok_text,
                             line ''Server listening on stdio'']"
  have st1: "start_mcp_server (\<lambda>argv. scripted_child []) ?cmd = Some (scripted_child [])"
    by (simp add: start_mcp_server_def scripted_child_def)
  have st2: "start_mcp_server (\<lambda>argv. closing_child) ?cmd = Some closing_child"
    by (simp add: start_mcp_server_def closing_child_def scripted_child_def)
  have st3: "start_mcp_server (\<lambda>argv. ?c3) ?cmd = Some ?c3"
    by (simp add: start_mcp_server_def scripted_child_def)
  have st4: "start_mcp_server (\<lambda>argv. ?c4) ?cmd = Some ?c4"
    by (simp add: start_mcp_server_def scripted_child_def)
  have st5: "start_mcp_server (\<lambda>argv. ?c5) ?cmd = Some ?c5"
    by (simp add: start_mcp_server_def scripted_child_def)
  have a1: "\<not> negotiated demo_loads (scripted_child [])"
    by code_simp
  have a2: "negotiated demo_loads closing_child"
    by code_simp
  have b2: "fst (request_tools demo_loads closing_child (after_initialize demo_loads closing_child))
              = Raise ''[Errno 32] Broken pipe''"
    by code_simp
  have a3: "negotiated demo_loads ?c3"
    by code_simp
  have b3: "fst (request_tools demo_loads ?c3 (after_initialize demo_loads ?c3)) = Ret ()"
    by code_simp
  have c3: "fst (request_resources demo_loads ?c3 (after_tools demo_loads ?c3))
              = Raise (quoted ''list'' @ '' object has no attribute '' @ quoted ''get'')"
    by code_simp
  have a4: "negotiated demo_loads ?c4"
    by code_simp
  have b4: "fst (request_tools demo_loads ?c4 (after_initialize demo_loads ?c4))
              = Raise recursion_error"
    by code_simp
  have a5: "negotiated demo_loads ?c5"
    by code_simp
  have b5: "fst (request_tools demo_loads ?c5 (after_initialize demo_loads ?c5)) = Ret ()"
    by code_simp
  have c5: "stdin_write ?c5 2 = None \<and>
            stdout_readline ?c5 2 = Ret (line ''Server listening on stdio'')"
    by (simp add: scripted_child_def)
  have d5: "demo_loads (strip (line ''Server listening on stdio'')) = DecodeError"
    by code_simp
  from failure_short_circuits[OF st1, of demo_loads] a1
  have r1: "sent (snd (connect_to_mcp (\<lambda>argv. scripted_child []) demo_loads ?cmd))
              = [init_request]"
    by blast
  from failure_short_circuits[OF st2, of demo_loads] a2 b2
  have r2: "sent (snd (connect_to_mcp (\<lambda>argv. closing_child) demo_loads ?cmd))
              = [init_request, tools_request]"
    by simp
  from failure_short_circuits[OF st3, of demo_loads] a3 b3 c3
  have r3: "sent (snd (connect_to_mcp (\<lambda>argv. ?c3) demo_loads ?cmd))
              = [init_request, tools_request, resources_request]"
    by simp
  from failure_short_circuits[OF st4, of demo_loads] a4 b4
  have r4: "sent (snd (connect_to_mcp (\<lambda>argv. ?c4) demo_loads ?cmd))
              = [init_request, tools_request]"
    by simp
  from failure_short_circuits[OF st5, of demo_loads] a5 b5 c5 d5
  have r5: "sent (snd (connect_to_mcp (\<lambda>argv. ?c5) demo_loads ?cmd))
              = [init_request, tools_request, resources_request, prompts_request]"
    by blast
  from a1 r1 a2 b2 r2 c3 r3 b4 r4 d5 r5 show ?thesis by blast
qed

text \<open>
  C3, as the claim has it, fails: when the tools request gets no response line, the
  resources and prompts requests are written all the same.
\<close>

theorem no_response_does_not_short_circuit:
  "negotiated demo_loads (scripted_child [line init_ok_text]) \<and>
   stdout_readline (scripted_child [line init_ok_text]) 1 = Ret [] \<and>
   map req_method (sent (snd (connect_to_mcp (\<lambda>argv. scripted_child [line init_ok_text])
                                 demo_loads ''npx -y demo-server'')))
     = [''initialize'', ''tools/list'', ''resources/list'', ''prompts/list'']"
  by code_simp

text \<open>
  C4, as the code has it. When the initialize step went through, the tools request is
  written next. When the tools step and the resources step end without an exception and
  without blocking, the requests written are exactly initialize, tools/list,
  resources/list and prompts/list, in this order; this is so in particular when the two
  requests are written and the response line of each is empty or makes \<open>json.loads\<close>
  raise \<open>json.JSONDecodeError\<close>.
\<close>

theorem list_calls_in_order:
  assumes "start_mcp_server os command = Some c" and "negotiated loads c"
  shows "take 2 (sent (snd (connect_to_mcp os loads command))) = [init_request, tools_request] \<and>
         (fst (request_tools loads c (after_initialize loads c)) = Ret () \<and>
          fst (request_resources loads c (after_tools loads c)) = Ret () \<longrightarrow>
            sent (snd (connect_to_mcp os loads command)) =
              [init_request, tools_request, resources_request, prompts_request]) \<and>
         (\<forall>l1 l2.
            stdin_write c 1 = None \<and> stdout_readline c 1 = Ret l1 \<and>
            (l1 = [] \<or> loads (strip l1) = DecodeError) \<and>
            stdin_write c 2 = None \<and> stdout_readline c 2 = Ret l2 \<and>
            (l2 = [] \<or> loads (strip l2) = DecodeError) \<longrightarrow>
            sent (snd (connect_to_mcp os loads command)) =
              [init_request, tools_request, resources_request, prompts_request])"
proof (intro conjI impI allI)
  show "take 2 (sent (snd (connect_to_mcp os loads command))) = [init_request, tools_request]"
    unfolding connect_sent_negotiated[OF assms]
    by (simp add: all_requests_def split: res.splits)
next
  assume "fst (request_tools loads c (after_initialize loads c)) = Ret () \<and>
          fst (request_resources loads c (after_tools loads c)) = Ret ()"
  then show "sent (snd (connect_to_mcp os loads command)) =
               [init_request, tools_request, resources_request, prompts_request]"
    unfolding connect_sent_negotiated[OF assms]
    by (simp add: all_requests_def)
next
  fix l1 l2
  assume quiet: "stdin_write c 1 = None \<and> stdout_readline c 1 = Ret l1 \<and>
            (l1 = [] \<or> loads (strip l1) = DecodeError) \<and>
            stdin_write c 2 = None \<and> stdout_readline c 2 = Ret l2 \<and>
            (l2 = [] \<or> loads (strip l2) = DecodeError)"
  let ?s1 = "after_initialize loads c"
  have s1: "length (sent ?s1) = 1" "reads ?s1 = 1"
    using after_initialize_sent[of loads c] after_initialize_reads[OF assms(2)] by simp_all
  from quiet s1 have t: "request_tools loads c ?s1 =
      (Ret (), ?s1\<lparr>sent := sent ?s1 @ [tools_request], reads := Suc (reads ?s1),
                     tools_local := JArr [], resources_local := JArr [],
                     prompts_local := JArr []\<rparr>)"
    by (intro request_tools_quiet[where l = l1]) simp_all
  then have s2: "length (sent (after_tools loads c)) = 2" "reads (after_tools loads c) = 2"
    using s1 by (simp_all add: after_tools_def)
  from quiet s2 have "fst (request_resources loads c (after_tools loads c)) = Ret ()"
    using request_resources_quiet[of c "after_tools loads c" l2 loads] by simp
  with t show "sent (snd (connect_to_mcp os loads command)) =
                 [init_request, tools_request, resources_request, prompts_request]"
    unfolding connect_sent_negotiated[OF assms]
    by (simp add: all_requests_def)
qed

theorem list_calls_in_order_witness:
  "negotiated demo_loads (scripted_child [line init_ok_text, line ''Server listening on stdio'']) \<and>
   demo_loads (strip (line ''Server listening on stdio'')) = DecodeError \<and>
   sent (snd (connect_to_mcp
          (\<lambda>argv. scripted_child [line init_ok_text, line ''Server listening on stdio''])
          demo_loads ''npx -y demo-server''))
     = [init_request, tools_request, resources_request, prompts_request]"
proof -
  let ?c = "scripted_child [line init_ok_text, line ''Server listening on stdio'']"
  have st: "start_mcp_server (\<lambda>argv. ?c) ''npx -y demo-server'' = Some ?c"
    by (simp add: start_mcp_server_def scripted_child_def)
  have neg: "negotiated demo_loads ?c"
    by code_simp
  have not_json: "demo_loads (strip (line ''Server listening on stdio'')) = DecodeError"
    by code_simp
  have quiet: "stdin_write ?c 1 = None \<and>
               stdout_readline ?c 1 = Ret (line ''Server listening on stdio'') \<and>
               stdin_write ?c 2 = None \<and> stdout_readline ?c 2 = Ret []"
    by (simp add: scripted_child_def)
  from list_calls_in_order[OF st neg] quiet not_json
  have "sent (snd (connect_to_mcp (\<lambda>argv. ?c) demo_loads ''npx -y demo-server''))
          = [init_request, tools_request, resources_request, prompts_request]"
    by blast
  with neg not_json show ?thesis by blast
qed

text \<open>
  C4, as the claim has it, fails: when the server closes its input after the initialize
  response, the write of the tools request raises, and neither resources/list nor
  prompts/list is attempted.
\<close>

theorem write_error_stops_list_calls:
  "negotiated demo_loads closing_child \<and>
   stdin_write closing_child 1 = Some ''[Errno 32] Broken pipe'' \<and>
   map req_method (sent (snd (connect_to_mcp (\<lambda>argv. closing_child) demo_loads
                                 ''npx -y demo-server'')))
     = [''initialize'', ''tools/list'']"
  by code_simp

text \<open>
  C7, as the code has it. When the process has exited by the end of the three-second
  sleep, \<open>connect_to_mcp\<close> returns \<open>{"success": False, "error": "Failed to start MCP
  server"}\<close>, a dictionary without the keys \<open>tools\<close> and \<open>stderr\<close>, and writes no request.
\<close>

theorem early_exit_outcome:
  assumes "popen_error (os (popen_args command)) = None"
    and "returncode (os (popen_args command)) = Some code"
  shows "connect_to_mcp os loads command =
           (Ret (failure ''Failed to start MCP server''), session0) \<and>
         \<not> success (failure ''Failed to start MCP server'') \<and>
         error (failure ''Failed to start MCP server'') = Some ''Failed to start MCP server'' \<and>
         tools (failure ''Failed to start MCP server'') = None \<and>
         stderr (failure ''Failed to start MCP server'') = None \<and>
         sent session0 = []"
proof -
  from assms have "start_mcp_server os command = None"
    by (simp add: start_mcp_server_def)
  then show ?thesis
    by (simp add: connect_not_started failure_def session0_def)
qed

theorem early_exit_outcome_witness:
  "popen_error early_exit_child = None \<and> returncode early_exit_child = Some 1 \<and>
   connect_to_mcp (\<lambda>argv. early_exit_child) demo_loads ''npx -y demo-server'' =
     (Ret (failure ''Failed to start MCP server''), session0)"
proof -
  have started: "popen_error ((\<lambda>argv. early_exit_child) (popen_args ''npx -y demo-server'')) = None"
    by (simp add: early_exit_child_def)
  have exited: "returncode ((\<lambda>argv. early_exit_child) (popen_args ''npx -y demo-server'')) = Some 1"
    by (simp add: early_exit_child_def)
  from early_exit_outcome[OF started exited, of demo_loads] started exited
  show ?thesis by simp
qed

text \<open>
  C7, as the claim has it, fails: for a process that has exited without output the error
  text is not \<open>No response from server\<close>, and the outcome has no \<open>tools\<close> key.
\<close>

theorem early_exit_not_no_response:
  "returncode early_exit_child = Some 1 \<and>
   (case fst (connect_to_mcp (\<lambda>argv. early_exit_child) demo_loads ''npx -y demo-server'') of
      Ret r \<Rightarrow> \<not> success r \<and> error r = Some ''Failed to start MCP server'' \<and>
               error r \<noteq> Some ''No response from server'' \<and> tools r = None
    | Raise e \<Rightarrow> False
    | Hang \<Rightarrow> False)"
  by code_simp

text \<open>
  C8. The reads of the server's output have no timeout. For a process that stays up and
  never writes a line, \<open>connect_to_mcp\<close> does not return: it blocks in the first
  \<open>readline\<close>, after the initialize request, and the process is never cleaned up.
\<close>

theorem silent_server_blocks_readline:
  "fst (connect_to_mcp (\<lambda>argv. silent_child) demo_loads ''tail -f /dev/null'') = Hang \<and>
   sent (snd (connect_to_mcp (\<lambda>argv. silent_child) demo_loads ''tail -f /dev/null''))
     = [init_request] \<and>
   \<not> cleaned (snd (connect_to_mcp (\<lambda>argv. silent_child) demo_loads ''tail -f /dev/null''))"
  by code_simp

text \<open>
  C9. In every session the requests written are an initial part of the sequence
  initialize, tools/list, resources/list, prompts/list, so their ids are strictly
  increasing in the order of writing, and pairwise different.
\<close>

theorem request_ids_increasing:
  "(\<exists>k. sent (snd (connect_to_mcp os loads command)) = take k all_requests) \<and>
   sorted_wrt (<) (map req_id (sent (snd (connect_to_mcp os loads command)))) \<and>
   distinct (map req_id (sent (snd (connect_to_mcp os loads command))))"
proof -
  have ids: "map req_id all_requests = [1, 2, 3, 4 :: int]"
    by (simp add: all_requests_def init_request_def tools_request_def resources_request_def
          prompts_request_def)
  have part: "\<exists>k. sent (snd (connect_to_mcp os loads command)) = take k all_requests"
  proof (cases "start_mcp_server os command")
    case None
    then have "sent (snd (connect_to_mcp os loads command)) = take 0 all_requests"
      by (simp add: connect_not_started session0_def)
    then show ?thesis by blast
  next
    case (Some c)
    have "sent session0 = []" by (simp add: session0_def)
    then have "sent (snd (exchange loads c session0)) \<in>
                 {take 1 all_requests, take 2 all_requests, take 3 all_requests, all_requests}"
      unfolding exchange_sent
      by (simp add: all_requests_def split: prod.splits res.splits sum.splits)
    then have "\<exists>k. sent (snd (exchange loads c session0)) = take k all_requests"
      by (metis insertE singletonD take_all order_refl)
    with connect_sent[OF Some, of loads] show ?thesis by simp
  qed
  then obtain k where k: "sent (snd (connect_to_mcp os loads command)) = take k all_requests"
    by blast
  have "map req_id (take k all_requests) = take k (map req_id all_requests)"
    by (simp add: take_map)
  then have "map req_id (take k all_requests) = take k [1, 2, 3, 4]"
    by (simp only: ids)
  moreover have "sorted_wrt (<) (take k [1, 2, 3, 4 :: int])"
    by (rule sorted_wrt_take) simp
  moreover have "distinct (take k [1, 2, 3, 4 :: int])"
    by (rule distinct_take) simp
  ultimately show ?thesis using part k by simp
qed

theorem request_ids_increasing_witness:
  "map req_id (sent (snd (connect_to_mcp
       (\<lambda>argv. scripted_child [line init_ok_text, line tools_ok_text]) demo_loads
       ''npx -y demo-server''))) = [1, 2, 3, 4] \<and>
   sorted_wrt (<) (map req_id (sent (snd (connect_to_mcp
       (\<lambda>argv. scripted_child [line init_ok_text, line tools_ok_text]) demo_loads
       ''npx -y demo-server''))))"
proof -
  have "map req_id (sent (snd (connect_to_mcp
       (\<lambda>argv. scripted_child [line init_ok_text, line tools_ok_text]) demo_loads
       ''npx -y demo-server''))) = [1, 2, 3, 4]"
    by code_simp
  with request_ids_increasing[of "\<lambda>argv. scripted_child [line init_ok_text, line tools_ok_text]"
         demo_loads "''npx -y demo-server''"]
  show ?thesis by blast
qed

text \<open>
  C10, as the code has it. When the response line of the initialize request parses as a
  JSON object without a \<open>result\<close> member, such as an error response, the initialize step
  goes through with the protocol version \<open>None\<close> and empty server information and
  capabilities, and the tools request is written. An outcome returned with
  \<open>success = True\<close> carries these defaults, and the outcome is such when each list request
  is written and gets a line that is empty or makes \<open>json.loads\<close> raise
  \<open>json.JSONDecodeError\<close>.
\<close>

theorem error_response_counts_as_negotiated:
  assumes "start_mcp_server os command = Some c"
    and "stdin_write c 0 = None"
    and "stderr_select c = Inr True \<longrightarrow> stderr_read c 0 \<noteq> Hang"
    and "stdout_readline c 0 = Ret l" and "l \<noteq> []"
    and "loads (strip l) = Parsed (JObj members)" and "map_of members ''result'' = None"
  shows "(\<exists>sd. fst (initialize loads c session0) = Ret (Inr (sd, JNull, JObj [], JObj []))) \<and>
         take 2 (sent (snd (connect_to_mcp os loads command))) = [init_request, tools_request] \<and>
         (\<forall>r. fst (connect_to_mcp os loads command) = Ret r \<and> success r \<longrightarrow>
            protocol_version r = Some JNull \<and> server_info r = Some (JObj []) \<and>
            capabilities r = Some (JObj [])) \<and>
         ((\<forall>k \<in> {1, 2, 3}. stdin_write c k = None \<and>
             (\<exists>t. stdout_readline c k = Ret t \<and> (t = [] \<or> loads (strip t) = DecodeError))) \<longrightarrow>
          (\<exists>r. fst (connect_to_mcp os loads command) = Ret r \<and> success r \<and>
             tools r = Some (JArr [])))"
proof -
  from initialize_no_result[where loads = loads and l = l and members = members, OF assms(2-7)]
  obtain sd
    where init: "fst (initialize loads c session0) = Ret (Inr (sd, JNull, JObj [], JObj []))"
    by blast
  then have neg: "negotiated loads c" by (simp add: negotiated_def)
  have written: "take 2 (sent (snd (connect_to_mcp os loads command)))
                   = [init_request, tools_request]"
    unfolding connect_sent_negotiated[OF assms(1) neg]
    by (simp add: all_requests_def split: res.splits)
  have defaults: "protocol_version r = Some JNull \<and> server_info r = Some (JObj []) \<and>
                  capabilities r = Some (JObj [])"
    if "fst (connect_to_mcp os loads command) = Ret r \<and> success r" for r
  proof -
    from that connect_returns[of os loads command r] assms(1) initialize_early
    obtain sd' pv si cp s1 s3
      where i: "initialize loads c session0 = (Ret (Inr (sd', pv, si, cp)), s1)"
        and s: "fst (summarize sd' pv si cp s3) = Ret r"
      by (fastforce simp: failure_def)
    from i init have "pv = JNull" "si = JObj []" "cp = JObj []" by simp_all
    with summarize_result[OF s] show ?thesis by simp
  qed
  have quiet: "\<exists>r. fst (connect_to_mcp os loads command) = Ret r \<and> success r \<and>
                 tools r = Some (JArr [])"
    if "\<forall>k \<in> {1, 2, 3}. stdin_write c k = None \<and>
          (\<exists>t. stdout_readline c k = Ret t \<and> (t = [] \<or> loads (strip t) = DecodeError))"
  proof -
    from quiet_lists_succeed[OF neg that] obtain r
      where r: "fst (exchange loads c session0) = Ret r" "success r" "tools r = Some (JArr [])"
      by blast
    then have "fst (connect_to_mcp os loads command) = Ret r"
      unfolding connect_result[OF assms(1)] communicate_result
      by (cases "exchange loads c session0") simp
    with r show ?thesis by blast
  qed
  from init written defaults quiet show ?thesis by blast
qed

theorem error_response_counts_as_negotiated_witness:
  "demo_loads (strip (line init_error_text)) = Parsed init_error_json \<and>
   (case fst (connect_to_mcp (\<lambda>argv. scripted_child [line init_error_text]) demo_loads
                ''npx -y demo-server'') of
      Ret r \<Rightarrow> success r \<and> protocol_version r = Some JNull \<and>
               server_info r = Some (JObj []) \<and> capabilities r = Some (JObj [])
    | Raise e \<Rightarrow> False
    | Hang \<Rightarrow> False)"
proof -
  let ?c = "scripted_child [line init_error_text]"
  let ?cmd = "''npx -y demo-server''"
  let ?members = "[(''jsonrpc'', JStr ''2.0''), (''id'', JNum 1),
                   (''error'', JObj [(''code'', JNum (- 32601)),
                                     (''message'', JStr ''Method not found'')])]"
  have st: "start_mcp_server (\<lambda>argv. ?c) ?cmd = Some ?c"
    by (simp add: start_mcp_server_def scripted_child_def)
  have w: "stdin_write ?c 0 = None" by (simp add: scripted_child_def)
  have p: "stderr_select ?c = Inr True \<longrightarrow> stderr_read ?c 0 \<noteq> Hang"
    by (simp add: scripted_child_def)
  have rd: "stdout_readline ?c 0 = Ret (line init_error_text)" by (simp add: scripted_child_def)
  have ne: "line init_error_text \<noteq> []" by (simp add: line_def)
  have parsed: "demo_loads (strip (line init_error_text)) = Parsed (JObj ?members)"
    by code_simp
  have no_result: "map_of ?members ''result'' = None" by simp
  have lists: "\<forall>k \<in> {1, 2, 3}. stdin_write ?c k = None \<and>
      (\<exists>t. stdout_readline ?c k = Ret t \<and> (t = [] \<or> demo_loads (strip t) = DecodeError))"
    by (simp add: scripted_child_def)
  from error_response_counts_as_negotiated[where loads = demo_loads
         and l = "line init_error_text" and members = ?members,
         OF st w p rd ne parsed no_result] lists
  obtain r where r: "fst (connect_to_mcp (\<lambda>argv. ?c) demo_loads ?cmd) = Ret r" "success r"
    "protocol_version r = Some JNull \<and> server_info r = Some (JObj []) \<and>
     capabilities r = Some (JObj [])"
    by blast
  from parsed have "demo_loads (strip (line init_error_text)) = Parsed init_error_json"
    by (simp add: init_error_json_def)
  with r show ?thesis by simp
qed

text \<open>
  C10, as the claim has it, fails: the line \<open>[]\<close> parses as a JSON value, and the outcome
  has \<open>success = False\<close>, with the text of the exception that \<open>.get\<close> raises on a list.
\<close>

theorem json_array_response_fails:
  "demo_loads (strip (line ''[]'')) = Parsed (JArr []) \<and>
   (case fst (connect_to_mcp (\<lambda>argv. scripted_child [line ''[]'']) demo_loads
                ''npx -y demo-server'') of
      Ret r \<Rightarrow> \<not> success r \<and>
               error r = Some (quoted ''list'' @ '' object has no attribute '' @ quoted ''get'')
    | Raise e \<Rightarrow> False
    | Hang \<Rightarrow> False)"
  by code_simp

end
